theory Spec2Isabelle
  imports Main "HOL-Library.Sublist"
begin

section \<open>The process and its surroundings\<close>

text \<open>
  The functions of \<^verbatim>\<open>build-system/pr-check/utils.js\<close> and of the checks entry point
  are sequencing wrappers around external processes and console output. Every externally
  visible action is an event; a run of a function appends its events to the trace of the
  process.
\<close>

datatype event =
    Exec string
  | ExecOrDie string
  | ConsoleLog "string list"
  | ConsoleError "string list"
  | ReplaceUrls string
  | SignalDistUploadComplete
  | RunYarnChecks string
  | DetermineBuildTargets string
  | ReportAllExpectedTests "string list"

text \<open>
  \<open>Normal\<close>: the process is running. \<open>Exited n\<close>: \<^verbatim>\<open>process.exit(n)\<close> was called,
  nothing runs afterwards. \<open>Rejected\<close>: an awaited promise was rejected inside an
  \<^verbatim>\<open>async\<close> function, whose remaining statements do not run.
\<close>

datatype status = Normal | Exited int | Rejected

record world =
  trace :: "event list"
  status :: status
  exitCode :: "int option"

text \<open>The \<^verbatim>\<open>ansi-colors\<close> functions the code calls; each maps a string to a string.\<close>

record colors =
  bold :: "string \<Rightarrow> string"
  yellow :: "string \<Rightarrow> string"
  cyan :: "string \<Rightarrow> string"
  green :: "string \<Rightarrow> string"
  red :: "string \<Rightarrow> string"

text \<open>
  What the code reads from outside itself: the modules \<^verbatim>\<open>../git\<close>, \<^verbatim>\<open>../travis\<close>,
  \<^verbatim>\<open>./yarn-checks\<close>, \<^verbatim>\<open>./build-targets\<close>, the environment variable
  \<^verbatim>\<open>GCP_TOKEN\<close>, the clock, and the outcome of every external command. The exit status
  of a command, the rejection of an awaited call and the clock may depend on everything
  that happened before (the trace so far).
\<close>

record env =
  colors :: colors
  cmd_status :: "event list \<Rightarrow> string \<Rightarrow> int"
  rejects :: "event list \<Rightarrow> event \<Rightarrow> bool"
  now :: "event list \<Rightarrow> int"
  GCP_TOKEN :: "string option"
  isTravisBuild :: bool
  travisBuildNumber :: string
  travisPullRequestSha :: string
  isTravisPullRequestBuild :: bool
  gitBranchCreationPoint :: string
  gitBranchName :: string
  gitCommitHash :: string
  gitDiffCommitLog :: string
  gitDiffStatMaster :: string
  gitTravisMasterBaseline :: string
  shortSha :: "string \<Rightarrow> string"
  yarnChecksPass :: bool
  buildTargets :: "string list"

subsection \<open>Primitive effects\<close>

definition emit :: "event \<Rightarrow> world \<Rightarrow> world" where
  "emit e w = (if status w = Normal then w\<lparr>trace := trace w @ [e]\<rparr> else w)"

definition console_log :: "string list \<Rightarrow> world \<Rightarrow> world" where
  "console_log args w = emit (ConsoleLog args) w"

definition console_error :: "string list \<Rightarrow> world \<Rightarrow> world" where
  "console_error args w = emit (ConsoleError args) w"

text \<open>
  Modelled from the spec: \<^verbatim>\<open>exec\<close> of the module \<^verbatim>\<open>../exec\<close>, which is not among
  the sources. The spec's Process Runner: \<^verbatim>\<open>run(command)\<close> executes the command
  synchronously and is not fatal. No function here reads what it returns.
\<close>

definition exec :: "string \<Rightarrow> world \<Rightarrow> world" where
  "exec cmd w = emit (Exec cmd) w"

text \<open>
  Modelled from the spec: \<^verbatim>\<open>execOrDie\<close> of the module \<^verbatim>\<open>../exec\<close>, which is not
  among the sources. The spec's Process Runner: \<^verbatim>\<open>runOrFail(command)\<close> terminates the
  whole program with the non-zero status on failure.
\<close>

definition execOrDie :: "env \<Rightarrow> string \<Rightarrow> world \<Rightarrow> world" where
  "execOrDie env cmd w =
     (if status w = Normal then
        (let s = cmd_status env (trace w) cmd;
             w' = w\<lparr>trace := trace w @ [ExecOrDie cmd]\<rparr>
         in if s \<noteq> 0 then w'\<lparr>status := Exited s\<rparr> else w')
      else w)"

text \<open>
  An awaited call to an external asynchronous collaborator: it happens, and when its
  promise is rejected the rest of the calling \<^verbatim>\<open>async\<close> function is skipped.
\<close>

definition await :: "env \<Rightarrow> event \<Rightarrow> world \<Rightarrow> world" where
  "await env e w =
     (if status w = Normal then
        (let w' = w\<lparr>trace := trace w @ [e]\<rparr>
         in if rejects env (trace w) e then w'\<lparr>status := Rejected\<rparr> else w')
      else w)"

definition set_exitCode :: "int \<Rightarrow> world \<Rightarrow> world" where
  "set_exitCode n w = (if status w = Normal then w\<lparr>exitCode := Some n\<rparr> else w)"

subsection \<open>JavaScript strings and numbers\<close>

text \<open>A template literal renders an undefined value as the text \<^verbatim>\<open>undefined\<close>.\<close>

definition template :: "string option \<Rightarrow> string" where
  "template v = (case v of None \<Rightarrow> ''undefined'' | Some s \<Rightarrow> s)"

text \<open>\<^verbatim>\<open>s.split(c)\<close> for a one-character separator, and \<^verbatim>\<open>xs.join(sep)\<close>.\<close>

fun split_on :: "char \<Rightarrow> string \<Rightarrow> string list" where
  "split_on c [] = ['''']"
| "split_on c (x # xs) =
     (if x = c then '''' # split_on c xs
      else (case split_on c xs of [] \<Rightarrow> [x] # [] | p # ps \<Rightarrow> (x # p) # ps))"

fun join :: "string \<Rightarrow> string list \<Rightarrow> string" where
  "join sep [] = []"
| "join sep [p] = p"
| "join sep (p # q # ps) = p @ sep @ join sep (q # ps)"

text \<open>
  \<^verbatim>\<open>s.replace(pat, rep)\<close> with a string pattern: the first occurrence is replaced.
\<close>

fun replace_first :: "string \<Rightarrow> string \<Rightarrow> string \<Rightarrow> string" where
  "replace_first pat rep [] = (if pat = [] then rep else [])"
| "replace_first pat rep (c # cs) =
     (if prefix pat (c # cs) then rep @ drop (length pat) (c # cs)
      else c # replace_first pat rep cs)"

text \<open>
  The decimal text of an integer, as string concatenation with a number produces it.
  Timestamps are the integers of \<^verbatim>\<open>Date.now()\<close>, far below the magnitude at which
  JavaScript switches to exponent notation or loses integer precision.
\<close>

fun digits :: "nat \<Rightarrow> string" where
  "digits n =
     (if n < 10 then [''0123456789'' ! n]
      else digits (n div 10) @ [''0123456789'' ! (n mod 10)])"

declare digits.simps [simp del]

definition number_text :: "int \<Rightarrow> string" where
  "number_text i = (if i < 0 then CHR ''-'' # digits (nat (- i)) else digits (nat i))"

text \<open>
  The remainder operator \<^verbatim>\<open>%\<close> takes the sign of the dividend;
  \<^verbatim>\<open>Math.floor(a / b)\<close> on integers with positive \<open>b\<close> is \<open>a div b\<close>.
\<close>

definition js_rem :: "int \<Rightarrow> int \<Rightarrow> int" where
  "js_rem a b = (if a < 0 then - ((- a) mod \<bar>b\<bar>) else a mod \<bar>b\<bar>)"

section \<open>utils.js\<close>

text \<open>
  The private helpers of the file end in an underscore (\<^verbatim>\<open>uploadOutput_\<close>,
  \<^verbatim>\<open>downloadOutput_\<close>, \<^verbatim>\<open>authenticateWithStorageLocation_\<close>,
  \<^verbatim>\<open>decryptTravisKey_\<close>); here the underscore is written as a prime.
\<close>

definition BUILD_OUTPUT_FILE :: "env \<Rightarrow> string" where
  "BUILD_OUTPUT_FILE env =
     (if isTravisBuild env then ''amp_build_'' @ travisBuildNumber env @ ''.zip'' else '''')"

definition DIST_OUTPUT_FILE :: "env \<Rightarrow> string" where
  "DIST_OUTPUT_FILE env =
     (if isTravisBuild env then ''amp_dist_'' @ travisBuildNumber env @ ''.zip'' else '''')"

definition BUILD_OUTPUT_DIRS :: string where
  "BUILD_OUTPUT_DIRS = ''build/ dist/ dist.3p/ EXTENSIONS_CSS_MAP''"

definition DIST_OUTPUT_DIRS :: string where
  "DIST_OUTPUT_DIRS =
     ''build/ dist/ dist.3p/ dist.tools/ EXTENSIONS_CSS_MAP examples/ test/manual/''"

definition OUTPUT_STORAGE_LOCATION :: string where
  "OUTPUT_STORAGE_LOCATION = ''gs://amp-travis-builds''"

definition OUTPUT_STORAGE_KEY_FILE :: string where
  "OUTPUT_STORAGE_KEY_FILE = ''sa-travis-key.json''"

definition OUTPUT_STORAGE_PROJECT_ID :: string where
  "OUTPUT_STORAGE_PROJECT_ID = ''amp-travis-build-storage''"

definition OUTPUT_STORAGE_SERVICE_ACCOUNT :: string where
  "OUTPUT_STORAGE_SERVICE_ACCOUNT =
     ''sa-travis@amp-travis-build-storage.iam.gserviceaccount.com''"

definition GIT_BRANCH_URL :: string where
  "GIT_BRANCH_URL =
     ''https://github.com/ampproject/amphtml/blob/master/contributing/getting-started-e2e.md#create-a-git-branch''"

definition fileLogPrefix :: "env \<Rightarrow> string \<Rightarrow> string" where
  "fileLogPrefix env name = bold (colors env) (yellow (colors env) (name @ '':''))"

text \<open>A string is falsy exactly when it is empty.\<close>

definition verifyBranchCreationPoint :: "env \<Rightarrow> string \<Rightarrow> world \<Rightarrow> bool \<times> world" where
  "verifyBranchCreationPoint env fileName w0 =
     (let branchCreationPoint = gitBranchCreationPoint env in
      if branchCreationPoint = '''' then
        (let w1 = console_error
                    [fileLogPrefix env fileName,
                     red (colors env) ''ERROR:'',
                     ''Could not find a common ancestor for'',
                     cyan (colors env) (gitBranchName env),
                     ''and'',
                     cyan (colors env) ''master'' @ ''. Was this PR branch properly forked?''] w0;
             w2 = console_error
                    [fileLogPrefix env fileName,
                     yellow (colors env) ''NOTE:'',
                     ''To fix this, rebase your branch on'',
                     cyan (colors env) ''master''
                       @ '', or recreate it by following the instructions at'',
                     cyan (colors env) GIT_BRANCH_URL @ ''.''] w1
         in (False, w2))
      else (True, w0))"

definition printChangeSummary :: "env \<Rightarrow> string \<Rightarrow> world \<Rightarrow> world" where
  "printChangeSummary env fileName w0 =
     (let (commitSha, w1) =
            (if isTravisBuild env then
               (travisPullRequestSha env,
                console_log
                  [fileLogPrefix env fileName @ '' '' @ cyan (colors env) ''origin/master''
                     @ '' is currently at '' @ ''commit ''
                     @ cyan (colors env) (shortSha env (gitTravisMasterBaseline env))] w0)
             else (gitCommitHash env, w0));
          w2 = console_log
                 [fileLogPrefix env fileName @ '' Testing the following changes at commit ''
                    @ cyan (colors env) (shortSha env commitSha)] w1;
          filesChanged = gitDiffStatMaster env;
          w3 = console_log [filesChanged] w2;
          branchCreationPoint = gitBranchCreationPoint env;
          w4 = console_log
                 [fileLogPrefix env fileName @ '' Commit log since branch'',
                  cyan (colors env) (gitBranchName env) @ '' was forked from'',
                  cyan (colors env) ''master'' @ '' at'',
                  cyan (colors env) (shortSha env branchCreationPoint) @ '':''] w3
      in console_log [gitDiffCommitLog env @ [CHR 0x0A]] w4)"

definition startTimer :: "env \<Rightarrow> string \<Rightarrow> string \<Rightarrow> world \<Rightarrow> int \<times> world" where
  "startTimer env functionName fileName w0 =
     (let startTime = now env (trace w0);
          w1 = console_log
                 [CHR 0x0A # fileLogPrefix env fileName,
                  ''Running'',
                  cyan (colors env) functionName @ ''...''] w0
      in (startTime, w1))"

definition stopTimer :: "env \<Rightarrow> string \<Rightarrow> string \<Rightarrow> int \<Rightarrow> world \<Rightarrow> world" where
  "stopTimer env functionName fileName startTime w0 =
     (let endTime = now env (trace w0);
          executionTime = endTime - startTime;
          mins = executionTime div 60000;
          secs = js_rem executionTime 60000 div 1000
      in console_log
           [fileLogPrefix env fileName,
            ''Done running'',
            cyan (colors env) functionName,
            ''Total time:'',
            green (colors env) (number_text mins @ ''m '' @ number_text secs @ ''s'')] w0)"

definition timedExecOrDie :: "env \<Rightarrow> string \<Rightarrow> string \<Rightarrow> world \<Rightarrow> world" where
  "timedExecOrDie env cmd fileName w0 =
     (let (startTime, w1) = startTimer env cmd fileName w0;
          w2 = execOrDie env cmd w1
      in stopTimer env cmd fileName startTime w2)"

definition decryptTravisKey' :: "env \<Rightarrow> world \<Rightarrow> world" where
  "decryptTravisKey' env w =
     execOrDie env
       (''openssl aes-256-cbc -md sha256 -k '' @ template (GCP_TOKEN env) @ '' -in ''
          @ ''build-system/sa-travis-key.json.enc -out '' @ OUTPUT_STORAGE_KEY_FILE @ '' -d'') w"

definition authenticateWithStorageLocation' :: "env \<Rightarrow> world \<Rightarrow> world" where
  "authenticateWithStorageLocation' env w0 =
     (let w1 = decryptTravisKey' env w0;
          w2 = execOrDie env
                 (''gcloud auth activate-service-account ''
                    @ ''--key-file '' @ OUTPUT_STORAGE_KEY_FILE) w1;
          w3 = execOrDie env
                 (''gcloud config set account '' @ OUTPUT_STORAGE_SERVICE_ACCOUNT) w2;
          w4 = execOrDie env ''gcloud config set pass_credentials_to_gsutil true'' w3;
          w5 = execOrDie env
                 (''gcloud config set project '' @ OUTPUT_STORAGE_PROJECT_ID) w4
      in execOrDie env ''gcloud config list'' w5)"

definition downloadOutput' :: "env \<Rightarrow> string \<Rightarrow> string \<Rightarrow> string \<Rightarrow> world \<Rightarrow> world" where
  "downloadOutput' env functionName outputFileName outputDirs w0 =
     (let buildOutputDownloadUrl = OUTPUT_STORAGE_LOCATION @ ''/'' @ outputFileName;
          w1 = console_log
                 [fileLogPrefix env functionName @ '' Downloading build output from ''
                    @ cyan (colors env) buildOutputDownloadUrl @ ''...''] w0;
          w2 = exec ''echo travis_fold:start:download_results && echo'' w1;
          w3 = authenticateWithStorageLocation' env w2;
          w4 = execOrDie env
                 (''gsutil cp '' @ buildOutputDownloadUrl @ '' '' @ outputFileName) w3;
          w5 = exec ''echo travis_fold:end:download_results'' w4;
          w6 = console_log
                 [fileLogPrefix env functionName @ '' Extracting ''
                    @ cyan (colors env) outputFileName @ ''...''] w5;
          w7 = exec ''echo travis_fold:start:unzip_results && echo'' w6;
          w8 = execOrDie env (''unzip -o '' @ outputFileName) w7;
          w9 = exec ''echo travis_fold:end:unzip_results'' w8;
          w10 = console_log
                  [fileLogPrefix env functionName, ''Verifying extracted files...''] w9;
          w11 = exec ''echo travis_fold:start:verify_unzip_results && echo'' w10;
          w12 = execOrDie env (''ls -laR '' @ outputDirs) w11
      in exec ''echo travis_fold:end:verify_unzip_results'' w12)"

definition uploadOutput' :: "env \<Rightarrow> string \<Rightarrow> string \<Rightarrow> string \<Rightarrow> world \<Rightarrow> world" where
  "uploadOutput' env functionName outputFileName outputDirs w0 =
     (let w1 = console_log
                 [CHR 0x0A # fileLogPrefix env functionName @ '' Compressing ''
                    @ cyan (colors env) (join '', '' (split_on CHR '' '' outputDirs))
                    @ '' into '' @ cyan (colors env) outputFileName @ ''...''] w0;
          w2 = exec ''echo travis_fold:start:zip_results && echo'' w1;
          w3 = execOrDie env (''zip -r '' @ outputFileName @ '' '' @ outputDirs) w2;
          w4 = exec ''echo travis_fold:end:zip_results'' w3;
          w5 = console_log
                 [fileLogPrefix env functionName @ '' Uploading ''
                    @ cyan (colors env) outputFileName @ '' to ''
                    @ cyan (colors env) OUTPUT_STORAGE_LOCATION @ ''...''] w4;
          w6 = exec ''echo travis_fold:start:upload_results && echo'' w5;
          w7 = authenticateWithStorageLocation' env w6;
          w8 = execOrDie env
                 (''gsutil -m cp -r '' @ outputFileName @ '' '' @ OUTPUT_STORAGE_LOCATION) w7
      in exec ''echo travis_fold:end:upload_results'' w8)"

definition downloadBuildOutput :: "env \<Rightarrow> string \<Rightarrow> world \<Rightarrow> world" where
  "downloadBuildOutput env functionName w =
     downloadOutput' env functionName (BUILD_OUTPUT_FILE env) BUILD_OUTPUT_DIRS w"

definition downloadDistOutput :: "env \<Rightarrow> string \<Rightarrow> world \<Rightarrow> world" where
  "downloadDistOutput env functionName w =
     downloadOutput' env functionName (DIST_OUTPUT_FILE env) DIST_OUTPUT_DIRS w"

definition uploadBuildOutput :: "env \<Rightarrow> string \<Rightarrow> world \<Rightarrow> world" where
  "uploadBuildOutput env functionName w =
     uploadOutput' env functionName (BUILD_OUTPUT_FILE env) BUILD_OUTPUT_DIRS w"

definition uploadDistOutput :: "env \<Rightarrow> string \<Rightarrow> world \<Rightarrow> world" where
  "uploadDistOutput env functionName w =
     uploadOutput' env functionName (DIST_OUTPUT_FILE env) DIST_OUTPUT_DIRS w"

definition processAndUploadDistOutput :: "env \<Rightarrow> string \<Rightarrow> world \<Rightarrow> world" where
  "processAndUploadDistOutput env functionName w0 =
     (let w1 = await env (ReplaceUrls ''test/manual'') w0;
          w2 = await env (ReplaceUrls ''examples'') w1;
          w3 = uploadDistOutput env functionName w2
      in await env SignalDistUploadComplete w3)"

section \<open>The checks entry point\<close>

text \<open>
  The external collaborators \<^verbatim>\<open>runYarnChecks\<close>, \<^verbatim>\<open>determineBuildTargets\<close> and
  \<^verbatim>\<open>reportAllExpectedTests\<close>: each call is an event, and the value it returns is read
  from the environment.
\<close>

definition runYarnChecks :: "env \<Rightarrow> string \<Rightarrow> world \<Rightarrow> bool \<times> world" where
  "runYarnChecks env fileName w = (yarnChecksPass env, emit (RunYarnChecks fileName) w)"

definition determineBuildTargets :: "env \<Rightarrow> string \<Rightarrow> world \<Rightarrow> string list \<times> world" where
  "determineBuildTargets env fileName w =
     (buildTargets env, emit (DetermineBuildTargets fileName) w)"

definition reportAllExpectedTests :: "string list \<Rightarrow> world \<Rightarrow> world" where
  "reportAllExpectedTests targets w = emit (ReportAllExpectedTests targets) w"

definition has :: "string list \<Rightarrow> string \<Rightarrow> bool" where
  "has targets t = (t \<in> set targets)"

definition FILENAME :: string where
  "FILENAME = ''checks.js''"

text \<open>The entry point's own \<^verbatim>\<open>timedExecOrDie\<close>, which fixes the file name.\<close>

definition checks_timedExecOrDie :: "env \<Rightarrow> string \<Rightarrow> world \<Rightarrow> world" where
  "checks_timedExecOrDie env cmd w = timedExecOrDie env cmd FILENAME w"

definition main :: "env \<Rightarrow> world \<Rightarrow> world" where
  "main env w0 =
     (let (startTime, w1) = startTimer env FILENAME FILENAME w0;
          (yarnOk, w2) = runYarnChecks env FILENAME w1
      in
      if \<not> yarnOk then
        (let w3 = stopTimer env FILENAME FILENAME startTime w2
         in set_exitCode 1 w3)
      else if \<not> isTravisPullRequestBuild env then
        (let w3 = checks_timedExecOrDie env ''gulp update-packages'' w2;
             w4 = checks_timedExecOrDie env ''gulp check-exact-versions'' w3;
             w5 = checks_timedExecOrDie env ''gulp lint'' w4;
             w6 = checks_timedExecOrDie env ''gulp presubmit'' w5;
             w7 = checks_timedExecOrDie env ''gulp ava'' w6;
             w8 = checks_timedExecOrDie env ''gulp babel-plugin-tests'' w7;
             w9 = checks_timedExecOrDie env ''gulp caches-json'' w8;
             w10 = checks_timedExecOrDie env ''gulp json-syntax'' w9;
             w11 = checks_timedExecOrDie env ''gulp dev-dashboard-tests'' w10;
             w12 = checks_timedExecOrDie env ''gulp dep-check'' w11;
             w13 = checks_timedExecOrDie env ''gulp check-types'' w12
         in stopTimer env FILENAME FILENAME startTime w13)
      else
        (let (branchOk, w3) = verifyBranchCreationPoint env FILENAME w2
         in
         if \<not> branchOk then
           (let w4 = stopTimer env FILENAME FILENAME startTime w3
            in set_exitCode 1 w4)
         else
           (let w4 = printChangeSummary env FILENAME w3;
                (targets, w5) = determineBuildTargets env FILENAME w4;
                w6 = reportAllExpectedTests targets w5;
                w7 = checks_timedExecOrDie env ''gulp update-packages'' w6;
                w8 = checks_timedExecOrDie env ''gulp check-exact-versions'' w7;
                w9 = checks_timedExecOrDie env ''gulp lint'' w8;
                w10 = checks_timedExecOrDie env ''gulp presubmit'' w9;
                w11 = (if has targets ''AVA''
                       then checks_timedExecOrDie env ''gulp ava'' w10 else w10);
                w12 = (if has targets ''BABEL_PLUGIN''
                       then checks_timedExecOrDie env ''gulp babel-plugin-tests'' w11
                       else w11);
                w13 = (if has targets ''CACHES_JSON''
                       then checks_timedExecOrDie env ''gulp json-syntax''
                              (checks_timedExecOrDie env ''gulp caches-json'' w12)
                       else w12);
                w14 = (if has targets ''DOCS''
                       then checks_timedExecOrDie env ''gulp check-links'' w13 else w13);
                w15 = (if has targets ''DEV_DASHBOARD''
                       then checks_timedExecOrDie env ''gulp dev-dashboard-tests'' w14
                       else w14);
                w16 = (if has targets ''RUNTIME''
                       then checks_timedExecOrDie env ''gulp check-types''
                              (checks_timedExecOrDie env ''gulp dep-check'' w15)
                       else w15)
            in stopTimer env FILENAME FILENAME startTime w16)))"

section \<open>Scripts: straight-line sequences of effects\<close>

text \<open>
  The transfer functions are straight-line code: a fixed sequence of effects, cut short
  only by a fatal command or a rejected promise. A script lists such a sequence, and
  \<open>run_from\<close> computes, from the trace so far, the events a script adds and the status
  it ends in.
\<close>

datatype step = SEmit event | SDie string | SAwait event

fun run_step :: "env \<Rightarrow> step \<Rightarrow> world \<Rightarrow> world" where
  "run_step env (SEmit e) w = emit e w"
| "run_step env (SDie c) w = execOrDie env c w"
| "run_step env (SAwait e) w = await env e w"

fun step_event :: "step \<Rightarrow> event" where
  "step_event (SEmit e) = e"
| "step_event (SDie c) = ExecOrDie c"
| "step_event (SAwait e) = e"

fun step_status :: "env \<Rightarrow> event list \<Rightarrow> step \<Rightarrow> status" where
  "step_status env h (SEmit e) = Normal"
| "step_status env h (SDie c) =
     (if cmd_status env h c \<noteq> 0 then Exited (cmd_status env h c) else Normal)"
| "step_status env h (SAwait e) = (if rejects env h e then Rejected else Normal)"

fun wf_step :: "step \<Rightarrow> bool" where
  "wf_step (SEmit (ExecOrDie c)) = False"
| "wf_step (SAwait (ExecOrDie c)) = False"
| "wf_step s = True"

primrec run_script :: "env \<Rightarrow> step list \<Rightarrow> world \<Rightarrow> world" where
  "run_script env [] w = w"
| "run_script env (s # ss) w = run_script env ss (run_step env s w)"

primrec run_from :: "env \<Rightarrow> event list \<Rightarrow> step list \<Rightarrow> event list \<times> status" where
  "run_from env h [] = ([], Normal)"
| "run_from env h (s # ss) =
     (if step_status env h s = Normal
      then (step_event s # fst (run_from env (h @ [step_event s]) ss),
            snd (run_from env (h @ [step_event s]) ss))
      else ([step_event s], step_status env h s))"

text \<open>The events a run added to the trace.\<close>

definition new_events :: "world \<Rightarrow> world \<Rightarrow> event list" where
  "new_events w w' = drop (length (trace w)) (trace w')"

subsection \<open>The scripts of the straight-line functions\<close>

definition authenticate_script :: "env \<Rightarrow> step list" where
  "authenticate_script env =
     [SDie (''openssl aes-256-cbc -md sha256 -k '' @ template (GCP_TOKEN env) @ '' -in ''
              @ ''build-system/sa-travis-key.json.enc -out '' @ OUTPUT_STORAGE_KEY_FILE @ '' -d''),
      SDie (''gcloud auth activate-service-account ''
              @ ''--key-file '' @ OUTPUT_STORAGE_KEY_FILE),
      SDie (''gcloud config set account '' @ OUTPUT_STORAGE_SERVICE_ACCOUNT),
      SDie ''gcloud config set pass_credentials_to_gsutil true'',
      SDie (''gcloud config set project '' @ OUTPUT_STORAGE_PROJECT_ID),
      SDie ''gcloud config list'']"

definition upload_script :: "env \<Rightarrow> string \<Rightarrow> string \<Rightarrow> string \<Rightarrow> step list" where
  "upload_script env functionName outputFileName outputDirs =
     [SEmit (ConsoleLog
        [CHR 0x0A # fileLogPrefix env functionName @ '' Compressing ''
           @ cyan (colors env) (join '', '' (split_on CHR '' '' outputDirs))
           @ '' into '' @ cyan (colors env) outputFileName @ ''...'']),
      SEmit (Exec ''echo travis_fold:start:zip_results && echo''),
      SDie (''zip -r '' @ outputFileName @ '' '' @ outputDirs),
      SEmit (Exec ''echo travis_fold:end:zip_results''),
      SEmit (ConsoleLog
        [fileLogPrefix env functionName @ '' Uploading ''
           @ cyan (colors env) outputFileName @ '' to ''
           @ cyan (colors env) OUTPUT_STORAGE_LOCATION @ ''...'']),
      SEmit (Exec ''echo travis_fold:start:upload_results && echo'')]
     @ authenticate_script env
     @ [SDie (''gsutil -m cp -r '' @ outputFileName @ '' '' @ OUTPUT_STORAGE_LOCATION),
        SEmit (Exec ''echo travis_fold:end:upload_results'')]"

definition download_script :: "env \<Rightarrow> string \<Rightarrow> string \<Rightarrow> string \<Rightarrow> step list" where
  "download_script env functionName outputFileName outputDirs =
     [SEmit (ConsoleLog
        [fileLogPrefix env functionName @ '' Downloading build output from ''
           @ cyan (colors env) (OUTPUT_STORAGE_LOCATION @ ''/'' @ outputFileName) @ ''...'']),
      SEmit (Exec ''echo travis_fold:start:download_results && echo'')]
     @ authenticate_script env
     @ [SDie (''gsutil cp '' @ (OUTPUT_STORAGE_LOCATION @ ''/'' @ outputFileName)
                @ '' '' @ outputFileName),
        SEmit (Exec ''echo travis_fold:end:download_results''),
        SEmit (ConsoleLog
          [fileLogPrefix env functionName @ '' Extracting ''
             @ cyan (colors env) outputFileName @ ''...'']),
        SEmit (Exec ''echo travis_fold:start:unzip_results && echo''),
        SDie (''unzip -o '' @ outputFileName),
        SEmit (Exec ''echo travis_fold:end:unzip_results''),
        SEmit (ConsoleLog [fileLogPrefix env functionName, ''Verifying extracted files...'']),
        SEmit (Exec ''echo travis_fold:start:verify_unzip_results && echo''),
        SDie (''ls -laR '' @ outputDirs),
        SEmit (Exec ''echo travis_fold:end:verify_unzip_results'')]"

definition process_script :: "env \<Rightarrow> string \<Rightarrow> step list" where
  "process_script env functionName =
     [SAwait (ReplaceUrls ''test/manual''), SAwait (ReplaceUrls ''examples'')]
     @ upload_script env functionName (DIST_OUTPUT_FILE env) DIST_OUTPUT_DIRS
     @ [SAwait SignalDistUploadComplete]"

section \<open>Reading a trace\<close>

text \<open>The fatal commands of a trace that start with the given text, in order.\<close>

fun commands_with :: "string \<Rightarrow> event list \<Rightarrow> string list" where
  "commands_with p [] = []"
| "commands_with p (ExecOrDie c # es) =
     (if prefix p c then c # commands_with p es else commands_with p es)"
| "commands_with p (e # es) = commands_with p es"

text \<open>The last argument of a command line: the destination of a copy.\<close>

definition destination :: "string \<Rightarrow> string" where
  "destination cmd = last (split_on CHR '' '' cmd)"

text \<open>How often a block of events occurs in a trace as a contiguous run.\<close>

fun occurrences :: "event list \<Rightarrow> event list \<Rightarrow> nat" where
  "occurrences blk [] = (if blk = [] then 1 else 0)"
| "occurrences blk (e # es) = (if prefix blk (e # es) then 1 else 0) + occurrences blk es"

text \<open>The line \<^verbatim>\<open>stopTimer\<close> prints, and the events that run a command.\<close>

fun is_stopTimer_log :: "event \<Rightarrow> bool" where
  "is_stopTimer_log (ConsoleLog [p, d, f, t, e]) = (d = ''Done running'' \<and> t = ''Total time:'')"
| "is_stopTimer_log e = False"

fun is_command :: "event \<Rightarrow> bool" where
  "is_command (Exec c) = True"
| "is_command (ExecOrDie c) = True"
| "is_command e = False"

text \<open>The events of a complete run of \<^verbatim>\<open>authenticateWithStorageLocation_\<close>.\<close>

definition authenticate_events :: "env \<Rightarrow> event list" where
  "authenticate_events env =
     [ExecOrDie (''openssl aes-256-cbc -md sha256 -k '' @ template (GCP_TOKEN env)
                   @ '' -in build-system/sa-travis-key.json.enc -out sa-travis-key.json -d''),
      ExecOrDie ''gcloud auth activate-service-account --key-file sa-travis-key.json'',
      ExecOrDie ''gcloud config set account sa-travis@amp-travis-build-storage.iam.gserviceaccount.com'',
      ExecOrDie ''gcloud config set pass_credentials_to_gsutil true'',
      ExecOrDie ''gcloud config set project amp-travis-build-storage'',
      ExecOrDie ''gcloud config list'']"

section \<open>Concrete surroundings\<close>

text \<open>
  A Travis pull-request build with build number 1234 in which every command succeeds, no
  promise is rejected, colours leave the text as it is and the clock advances one second
  per event; and a fresh process.
\<close>

definition plain_colors :: colors where
  "plain_colors =
     \<lparr>bold = (\<lambda>s. s), yellow = (\<lambda>s. s), cyan = (\<lambda>s. s), green = (\<lambda>s. s), red = (\<lambda>s. s)\<rparr>"

definition env_1234 :: env where
  "env_1234 =
     \<lparr>colors = plain_colors,
      cmd_status = (\<lambda>h c. 0),
      rejects = (\<lambda>h e. False),
      now = (\<lambda>h. 1000 * int (length h)),
      GCP_TOKEN = Some ''secret'',
      isTravisBuild = True,
      travisBuildNumber = ''1234'',
      travisPullRequestSha = ''0123456789abcdef'',
      isTravisPullRequestBuild = True,
      gitBranchCreationPoint = ''fedcba9876543210'',
      gitBranchName = ''feature'',
      gitCommitHash = ''0123456789abcdef'',
      gitDiffCommitLog = ''one commit'',
      gitDiffStatMaster = ''one file changed'',
      gitTravisMasterBaseline = ''fedcba9876543210'',
      shortSha = take 7,
      yarnChecksPass = True,
      buildTargets = [''RUNTIME'']\<rparr>"

definition world0 :: world where
  "world0 = \<lparr>trace = [], status = Normal, exitCode = None\<rparr>"

text \<open>The same build, except that every \<^verbatim>\<open>ls\<close> command exits with status 2.\<close>

definition env_ls_fails :: env where
  "env_ls_fails = env_1234\<lparr>cmd_status := (\<lambda>h c. if prefix ''ls '' c then 2 else 0)\<rparr>"

definition env_project_fails :: env where
  "env_project_fails =
     env_1234\<lparr>cmd_status := (\<lambda>h c. if prefix ''gcloud config set project'' c then 1 else 0)\<rparr>"

text \<open>
  The same build with a clock that starts at a real timestamp, and a process that has
  already seen 61 events, so 61 seconds later on that clock.
\<close>

definition env_clock :: env where
  "env_clock = env_1234\<lparr>now := (\<lambda>h. 1572768000000 + 1000 * int (length h))\<rparr>"

definition world61 :: world where
  "world61 = world0\<lparr>trace := replicate 61 (Exec ''sleep 1'')\<rparr>"

section \<open>Properties of scripts\<close>

lemma env_1234_fields:
  "colors env_1234 = plain_colors"
  "cmd_status env_1234 = (\<lambda>h c. 0)"
  "rejects env_1234 = (\<lambda>h e. False)"
  "now env_1234 = (\<lambda>h. 1000 * int (length h))"
  "GCP_TOKEN env_1234 = Some ''secret''"
  "isTravisBuild env_1234"
  "travisBuildNumber env_1234 = ''1234''"
  "isTravisPullRequestBuild env_1234"
  "gitBranchCreationPoint env_1234 = ''fedcba9876543210''"
  "gitBranchName env_1234 = ''feature''"
  "yarnChecksPass env_1234"
  by (simp_all add: env_1234_def)

lemma world0_fields:
  "trace world0 = []" "status world0 = Normal" "exitCode world0 = None"
  by (simp_all add: world0_def)

lemma run_step_halted: "status w \<noteq> Normal \<Longrightarrow> run_step env s w = w"
  by (cases s) (simp_all add: emit_def execOrDie_def await_def)

lemma run_script_halted: "status w \<noteq> Normal \<Longrightarrow> run_script env ss w = w"
  by (induction ss arbitrary: w) (simp_all add: run_step_halted)

lemma run_step_eq:
  "status w = Normal \<Longrightarrow>
   run_step env s w = w\<lparr>trace := trace w @ [step_event s], status := step_status env (trace w) s\<rparr>"
  by (cases s) (auto simp: emit_def execOrDie_def await_def Let_def)

lemma run_script_eq:
  "status w = Normal \<Longrightarrow>
   run_script env ss w =
     w\<lparr>trace := trace w @ fst (run_from env (trace w) ss),
       status := snd (run_from env (trace w) ss)\<rparr>"
proof (induction ss arbitrary: w)
  case Nil
  then show ?case by simp
next
  case (Cons s ss)
  show ?case
  proof (cases "step_status env (trace w) s = Normal")
    case True
    with Cons.prems have st: "status (run_step env s w) = Normal"
      by (simp add: run_step_eq)
    show ?thesis
      using Cons.IH [OF st] True Cons.prems by (simp add: run_step_eq)
  next
    case False
    with Cons.prems have "status (run_step env s w) \<noteq> Normal"
      by (simp add: run_step_eq)
    then have "run_script env ss (run_step env s w) = run_step env s w"
      by (rule run_script_halted)
    with False Cons.prems show ?thesis by (simp add: run_step_eq)
  qed
qed

lemma run_script_append:
  "run_script env (xs @ ys) w = run_script env ys (run_script env xs w)"
  by (induction xs arbitrary: w) auto

lemma run_from_prefix: "prefix (fst (run_from env h ss)) (map step_event ss)"
  by (induction ss arbitrary: h) auto

lemma run_from_Normal:
  "snd (run_from env h ss) = Normal \<Longrightarrow> fst (run_from env h ss) = map step_event ss"
  by (induction ss arbitrary: h) (auto split: if_splits)

lemma run_from_all_ok:
  "(\<And>h c. cmd_status env h c = 0) \<Longrightarrow> (\<And>h e. \<not> rejects env h e) \<Longrightarrow>
   run_from env h ss = (map step_event ss, Normal)"
proof (induction ss arbitrary: h)
  case Nil
  then show ?case by simp
next
  case (Cons s ss)
  have "step_status env h s = Normal" using Cons.prems by (cases s) auto
  then show ?case using Cons by simp
qed

lemma run_from_fatal:
  "\<forall>s \<in> set ss. wf_step s \<Longrightarrow> i < length (fst (run_from env h ss)) \<Longrightarrow>
   fst (run_from env h ss) ! i = ExecOrDie c \<Longrightarrow>
   cmd_status env (h @ take i (fst (run_from env h ss))) c \<noteq> 0 \<Longrightarrow>
   Suc i = length (fst (run_from env h ss)) \<and>
   snd (run_from env h ss) = Exited (cmd_status env (h @ take i (fst (run_from env h ss))) c)"
proof (induction ss arbitrary: h i)
  case Nil
  then show ?case by simp
next
  case (Cons s ss)
  show ?case
  proof (cases "step_status env h s = Normal")
    case True
    note ok = this
    show ?thesis
    proof (cases i)
      case 0
      with Cons.prems ok have "step_event s = ExecOrDie c" by simp
      with Cons.prems(1) have "s = SDie c" by (cases s) auto
      with ok Cons.prems(4) 0 show ?thesis by (simp split: if_splits)
    next
      case (Suc j)
      let ?h = "h @ [step_event s]"
      let ?es = "fst (run_from env ?h ss)"
      have eq: "h @ take i (fst (run_from env h (s # ss))) = ?h @ take j ?es"
        using ok Suc by simp
      have a: "\<forall>s \<in> set ss. wf_step s" using Cons.prems(1) by simp
      have b: "j < length ?es" using Cons.prems(2) ok Suc by simp
      have c: "?es ! j = ExecOrDie c" using Cons.prems(3) ok Suc by simp
      have d: "cmd_status env (?h @ take j ?es) c \<noteq> 0"
        using Cons.prems(4) eq by simp
      from Cons.IH [OF a b c d] show ?thesis
        unfolding eq using ok Suc by simp
    qed
  next
    case False
    with Cons.prems have i0: "i = 0" by simp
    with Cons.prems False have "step_event s = ExecOrDie c" by simp
    with Cons.prems(1) have "s = SDie c" by (cases s) auto
    with False i0 Cons.prems(4) show ?thesis by (simp split: if_splits)
  qed
qed

lemma new_events_append [simp]: "new_events w (w\<lparr>trace := trace w @ es, status := st\<rparr>) = es"
  by (simp add: new_events_def)

lemma new_events_append' [simp]: "new_events w (w\<lparr>trace := trace w @ es\<rparr>) = es"
  by (simp add: new_events_def)

lemma run_script_new:
  "status w = Normal \<Longrightarrow>
   new_events w (run_script env ss w) = fst (run_from env (trace w) ss)"
  by (simp add: run_script_eq)

lemma run_script_status:
  "status w = Normal \<Longrightarrow> status (run_script env ss w) = snd (run_from env (trace w) ss)"
  by (simp add: run_script_eq)

lemma run_script_exitCode: "exitCode (run_script env ss w) = exitCode w"
  by (cases "status w = Normal") (simp_all add: run_script_eq run_script_halted)

lemma run_script_take:
  assumes "status w = Normal"
  shows "\<exists>k. new_events w (run_script env ss w) = take k (map step_event ss) \<and>
             (status (run_script env ss w) = Normal \<longrightarrow> k = length ss)"
proof -
  let ?es = "fst (run_from env (trace w) ss)"
  have p: "prefix ?es (map step_event ss)" by (rule run_from_prefix)
  then obtain zs where zs: "map step_event ss = ?es @ zs" by (auto simp: prefix_def)
  have t: "?es = take (length ?es) (map step_event ss)" by (simp add: zs)
  have n: "snd (run_from env (trace w) ss) = Normal \<Longrightarrow> length ?es = length ss"
    by (simp add: run_from_Normal)
  show ?thesis
    using t n assms by (auto simp: run_script_new run_script_status)
qed

lemma run_script_all_ok:
  assumes "status w = Normal" "\<forall>h c. cmd_status env h c = 0" "\<forall>h e. \<not> rejects env h e"
  shows "run_script env ss w = w\<lparr>trace := trace w @ map step_event ss\<rparr>"
proof -
  have "run_from env (trace w) ss = (map step_event ss, Normal)"
    using assms(2,3) by (intro run_from_all_ok) auto
  then show ?thesis using assms(1) by (simp add: run_script_eq)
qed

lemma run_script_fatal:
  assumes "status w = Normal" "\<forall>s \<in> set ss. wf_step s"
    and "i < length (new_events w (run_script env ss w))"
    and "new_events w (run_script env ss w) ! i = ExecOrDie c"
    and "cmd_status env (trace w @ take i (new_events w (run_script env ss w))) c \<noteq> 0"
  shows "Suc i = length (new_events w (run_script env ss w)) \<and>
         status (run_script env ss w) =
           Exited (cmd_status env (trace w @ take i (new_events w (run_script env ss w))) c)"
  using run_from_fatal [of ss i env "trace w" c] assms
  by (simp add: run_script_new run_script_status)

lemma authenticate_is_script:
  "authenticateWithStorageLocation' env w = run_script env (authenticate_script env) w"
  by (simp add: authenticateWithStorageLocation'_def decryptTravisKey'_def
      authenticate_script_def Let_def)

lemma upload_is_script:
  "uploadOutput' env fn file dirs w = run_script env (upload_script env fn file dirs) w"
  by (simp add: uploadOutput'_def upload_script_def authenticate_is_script run_script_append
      console_log_def exec_def Let_def)

lemma download_is_script:
  "downloadOutput' env fn file dirs w = run_script env (download_script env fn file dirs) w"
  by (simp add: downloadOutput'_def download_script_def authenticate_is_script run_script_append
      console_log_def exec_def Let_def)

lemma process_is_script:
  "processAndUploadDistOutput env fn w = run_script env (process_script env fn) w"
  by (simp add: processAndUploadDistOutput_def process_script_def uploadDistOutput_def
      upload_is_script run_script_append Let_def)

lemma wf_authenticate_script: "\<forall>s \<in> set (authenticate_script env). wf_step s"
  by (simp add: authenticate_script_def)

lemma wf_upload_script: "\<forall>s \<in> set (upload_script env fn file dirs). wf_step s"
  by (simp add: upload_script_def authenticate_script_def)

lemma wf_download_script: "\<forall>s \<in> set (download_script env fn file dirs). wf_step s"
  by (simp add: download_script_def authenticate_script_def)

lemma wf_process_script: "\<forall>s \<in> set (process_script env fn). wf_step s"
  by (simp add: process_script_def upload_script_def authenticate_script_def)

section \<open>Archive names\<close>

text \<open>
  C6: on a Travis build with build number \<open>R\<close>, the Build archive is named
  \<^verbatim>\<open>amp_build_R.zip\<close> and the Dist archive \<^verbatim>\<open>amp_dist_R.zip\<close>; the Build name is the
  Dist name with \<^verbatim>\<open>_build_\<close> substituted for \<^verbatim>\<open>_dist_\<close>, both names contain \<open>R\<close>, and
  for \<open>R\<close> = 1234 the Build archive is \<^verbatim>\<open>amp_build_1234.zip\<close>.
\<close>

theorem archive_names:
  assumes "isTravisBuild env"
  shows "BUILD_OUTPUT_FILE env = ''amp'' @ ''_build_'' @ travisBuildNumber env @ ''.zip'' \<and>
         DIST_OUTPUT_FILE env = ''amp'' @ ''_dist_'' @ travisBuildNumber env @ ''.zip'' \<and>
         BUILD_OUTPUT_FILE env = replace_first ''_dist_'' ''_build_'' (DIST_OUTPUT_FILE env) \<and>
         sublist (travisBuildNumber env) (BUILD_OUTPUT_FILE env) \<and>
         sublist (travisBuildNumber env) (DIST_OUTPUT_FILE env) \<and>
         (travisBuildNumber env = ''1234'' \<longrightarrow> BUILD_OUTPUT_FILE env = ''amp_build_1234.zip'')"
proof -
  have b: "BUILD_OUTPUT_FILE env = ''amp_build_'' @ travisBuildNumber env @ ''.zip''"
    using assms by (simp add: BUILD_OUTPUT_FILE_def)
  have d: "DIST_OUTPUT_FILE env = ''amp_dist_'' @ travisBuildNumber env @ ''.zip''"
    using assms by (simp add: DIST_OUTPUT_FILE_def)
  have r: "replace_first ''_dist_'' ''_build_'' (''amp_dist_'' @ travisBuildNumber env @ ''.zip'')
             = ''amp_build_'' @ travisBuildNumber env @ ''.zip''"
    by simp
  have sb: "sublist (travisBuildNumber env) (''amp_build_'' @ travisBuildNumber env @ ''.zip'')"
    by (rule sublist_appendI)
  have sd: "sublist (travisBuildNumber env) (''amp_dist_'' @ travisBuildNumber env @ ''.zip'')"
    by (rule sublist_appendI)
  show ?thesis
    unfolding b d r using sb sd by simp
qed

theorem archive_names_witness:
  "isTravisBuild env_1234 \<and> BUILD_OUTPUT_FILE env_1234 = ''amp_build_1234.zip'' \<and>
   DIST_OUTPUT_FILE env_1234 = ''amp_dist_1234.zip'' \<and>
   replace_first ''_dist_'' ''_build_'' ''amp_dist_1234.zip'' = ''amp_build_1234.zip''"
proof -
  have t: "isTravisBuild env_1234" by (simp add: env_1234_def)
  have n: "travisBuildNumber env_1234 = ''1234''" by (simp add: env_1234_def)
  from archive_names [OF t] show ?thesis
    using t by (simp add: n)
qed

section \<open>The timer\<close>

lemma number_text_0: "number_text 0 = ''0''"
  by (simp add: number_text_def digits.simps)

lemma number_text_1: "number_text 1 = ''1''"
  by (simp add: number_text_def digits.simps)

lemma stopTimer_new:
  "status w = Normal \<Longrightarrow>
   new_events w (stopTimer env fn file t w) =
     [ConsoleLog [fileLogPrefix env file, ''Done running'', cyan (colors env) fn, ''Total time:'',
        green (colors env)
          (number_text ((now env (trace w) - t) div 60000) @ ''m ''
             @ number_text (js_rem (now env (trace w) - t) 60000 div 1000) @ ''s'')]]"
  by (simp add: stopTimer_def console_log_def emit_def Let_def)

lemma startTimer_fst: "fst (startTimer env fn file w) = now env (trace w)"
  by (simp add: startTimer_def Let_def)

lemma number_text_minus: "number_text (- 1) = ''-1''" "number_text (- 2) = ''-2''"
  by (simp_all add: number_text_def digits.simps)

lemma js_rem_60000:
  "js_rem e 60000 = (if 0 \<le> e then e mod 60000 else - ((- e) mod 60000))"
  by (simp add: js_rem_def)

lemma startTimer_new:
  "status w = Normal \<Longrightarrow>
   new_events w (snd (startTimer env fn file w)) =
     [ConsoleLog [CHR 0x0A # fileLogPrefix env file, ''Running'',
        cyan (colors env) fn @ ''...'']]"
  by (simp add: startTimer_def console_log_def emit_def Let_def)

text \<open>
  C7: \<^verbatim>\<open>startTimer\<close> returns the reading of the clock, and \<^verbatim>\<open>stopTimer\<close>, given that
  value, prints for the elapsed time \<open>e\<close> (the reading at the stop minus the reading at
  the start, in milliseconds) the minutes \<open>e div 60000\<close>, the floor of \<open>e / 60000\<close>,
  and the seconds \<open>r div 1000\<close>, where \<open>r\<close> is the remainder of the \<^verbatim>\<open>%\<close> operator:
  \<open>e mod 60000\<close> for every \<open>e\<close> that is not negative, and \<open>- ((- e) mod 60000)\<close> when the
  clock was set back in between. After 0 milliseconds the text is \<^verbatim>\<open>0m 0s\<close>, after 61
  seconds \<^verbatim>\<open>1m 1s\<close>.
\<close>

theorem stopTimer_elapsed:
  assumes "status w = Normal"
  shows "fst (startTimer env fn file w0) = now env (trace w0) \<and>
         (status w0 = Normal \<longrightarrow>
            new_events w0 (snd (startTimer env fn file w0)) =
              [ConsoleLog [CHR 0x0A # fileLogPrefix env file, ''Running'',
                 cyan (colors env) fn @ ''...'']]) \<and>
         new_events w (stopTimer env fn file (fst (startTimer env fn file w0)) w) =
           [ConsoleLog [fileLogPrefix env file, ''Done running'', cyan (colors env) fn,
              ''Total time:'',
              green (colors env)
                (number_text ((now env (trace w) - now env (trace w0)) div 60000) @ ''m ''
                   @ number_text
                       ((if 0 \<le> now env (trace w) - now env (trace w0)
                         then (now env (trace w) - now env (trace w0)) mod 60000
                         else - ((- (now env (trace w) - now env (trace w0))) mod 60000))
                        div 1000)
                   @ ''s'')]] \<and>
         (now env (trace w) - now env (trace w0) = 0 \<longrightarrow>
            new_events w (stopTimer env fn file (fst (startTimer env fn file w0)) w) =
              [ConsoleLog [fileLogPrefix env file, ''Done running'', cyan (colors env) fn,
                 ''Total time:'', green (colors env) ''0m 0s'']]) \<and>
         (now env (trace w) - now env (trace w0) = 61000 \<longrightarrow>
            new_events w (stopTimer env fn file (fst (startTimer env fn file w0)) w) =
              [ConsoleLog [fileLogPrefix env file, ''Done running'', cyan (colors env) fn,
                 ''Total time:'', green (colors env) ''1m 1s'']])"
proof -
  let ?e = "now env (trace w) - now env (trace w0)"
  have f: "fst (startTimer env fn file w0) = now env (trace w0)"
    by (rule startTimer_fst)
  have s: "status w0 = Normal \<longrightarrow>
            new_events w0 (snd (startTimer env fn file w0)) =
              [ConsoleLog [CHR 0x0A # fileLogPrefix env file, ''Running'',
                 cyan (colors env) fn @ ''...'']]"
    by (simp add: startTimer_new)
  have n: "new_events w (stopTimer env fn file (fst (startTimer env fn file w0)) w) =
     [ConsoleLog [fileLogPrefix env file, ''Done running'', cyan (colors env) fn, ''Total time:'',
        green (colors env)
          (number_text (?e div 60000) @ ''m ''
             @ number_text ((if 0 \<le> ?e then ?e mod 60000 else - ((- ?e) mod 60000)) div 1000)
             @ ''s'')]]"
    unfolding f stopTimer_new [OF assms] js_rem_60000 ..
  have z: "?e = 0 \<longrightarrow>
            new_events w (stopTimer env fn file (fst (startTimer env fn file w0)) w) =
              [ConsoleLog [fileLogPrefix env file, ''Done running'', cyan (colors env) fn,
                 ''Total time:'', green (colors env) ''0m 0s'']]"
    unfolding n by (simp add: number_text_0)
  have m: "?e = 61000 \<longrightarrow>
            new_events w (stopTimer env fn file (fst (startTimer env fn file w0)) w) =
              [ConsoleLog [fileLogPrefix env file, ''Done running'', cyan (colors env) fn,
                 ''Total time:'', green (colors env) ''1m 1s'']]"
    unfolding n by (simp add: number_text_1)
  from f s n z m show ?thesis by (intro conjI)
qed

theorem stopTimer_elapsed_witness:
  "status world61 = Normal \<and> status world0 = Normal \<and>
   fst (startTimer env_clock ''gulp lint'' ''checks.js'' world0) = 1572768000000 \<and>
   new_events world0 (snd (startTimer env_clock ''gulp lint'' ''checks.js'' world0)) =
     [ConsoleLog [CHR 0x0A # ''checks.js:'', ''Running'', ''gulp lint...'']] \<and>
   new_events world61
     (stopTimer env_clock ''gulp lint'' ''checks.js''
        (fst (startTimer env_clock ''gulp lint'' ''checks.js'' world0)) world61) =
     [ConsoleLog [''checks.js:'', ''Done running'', ''gulp lint'', ''Total time:'', ''1m 1s'']] \<and>
   new_events world0
     (stopTimer env_clock ''gulp lint'' ''checks.js''
        (fst (startTimer env_clock ''gulp lint'' ''checks.js'' world0)) world0) =
     [ConsoleLog [''checks.js:'', ''Done running'', ''gulp lint'', ''Total time:'', ''0m 0s'']] \<and>
   new_events world0
     (stopTimer env_clock ''gulp lint'' ''checks.js''
        (fst (startTimer env_clock ''gulp lint'' ''checks.js'' world61)) world0) =
     [ConsoleLog [''checks.js:'', ''Done running'', ''gulp lint'', ''Total time:'', ''-2m -1s'']]"
proof -
  have s61: "status world61 = Normal" by (simp add: world61_def world0_fields)
  have s0: "status world0 = Normal" by (simp add: world0_fields)
  have c: "colors env_clock = plain_colors" by (simp add: env_clock_def env_1234_fields)
  have n0: "now env_clock (trace world0) = 1572768000000"
    by (simp add: env_clock_def world0_fields)
  have n61: "now env_clock (trace world61) = 1572768061000"
    by (simp add: env_clock_def world61_def)
  note a = stopTimer_elapsed [OF s61, of env_clock "''gulp lint''" "''checks.js''" world0]
  note b = stopTimer_elapsed [OF s0, of env_clock "''gulp lint''" "''checks.js''" world0]
  note d = stopTimer_elapsed [OF s0, of env_clock "''gulp lint''" "''checks.js''" world61]
  from a have f: "fst (startTimer env_clock ''gulp lint'' ''checks.js'' world0) = 1572768000000"
    unfolding n0 by blast
  from a s0 have g: "new_events world0 (snd (startTimer env_clock ''gulp lint'' ''checks.js'' world0)) =
     [ConsoleLog [CHR 0x0A # fileLogPrefix env_clock ''checks.js'', ''Running'',
        cyan (colors env_clock) ''gulp lint'' @ ''...'']]"
    by blast
  have e61: "now env_clock (trace world61) - now env_clock (trace world0) = 61000"
    unfolding n0 n61 by simp
  have e0: "now env_clock (trace world0) - now env_clock (trace world0) = 0"
    by simp
  from a e61 have h: "new_events world61
     (stopTimer env_clock ''gulp lint'' ''checks.js''
        (fst (startTimer env_clock ''gulp lint'' ''checks.js'' world0)) world61) =
     [ConsoleLog [fileLogPrefix env_clock ''checks.js'', ''Done running'',
        cyan (colors env_clock) ''gulp lint'', ''Total time:'', green (colors env_clock) ''1m 1s'']]"
    by blast
  from b e0 have i: "new_events world0
     (stopTimer env_clock ''gulp lint'' ''checks.js''
        (fst (startTimer env_clock ''gulp lint'' ''checks.js'' world0)) world0) =
     [ConsoleLog [fileLogPrefix env_clock ''checks.js'', ''Done running'',
        cyan (colors env_clock) ''gulp lint'', ''Total time:'', green (colors env_clock) ''0m 0s'']]"
    by blast
  from d have "new_events world0
     (stopTimer env_clock ''gulp lint'' ''checks.js''
        (fst (startTimer env_clock ''gulp lint'' ''checks.js'' world61)) world0) =
     [ConsoleLog [fileLogPrefix env_clock ''checks.js'', ''Done running'',
        cyan (colors env_clock) ''gulp lint'', ''Total time:'',
        green (colors env_clock)
          (number_text ((now env_clock (trace world0) - now env_clock (trace world61)) div 60000)
             @ ''m ''
             @ number_text
                 ((if 0 \<le> now env_clock (trace world0) - now env_clock (trace world61)
                   then (now env_clock (trace world0) - now env_clock (trace world61)) mod 60000
                   else - ((- (now env_clock (trace world0) - now env_clock (trace world61)))
                             mod 60000))
                  div 1000)
             @ ''s'')]]"
    by blast
  then have j: "new_events world0
     (stopTimer env_clock ''gulp lint'' ''checks.js''
        (fst (startTimer env_clock ''gulp lint'' ''checks.js'' world61)) world0) =
     [ConsoleLog [fileLogPrefix env_clock ''checks.js'', ''Done running'',
        cyan (colors env_clock) ''gulp lint'', ''Total time:'',
        green (colors env_clock) ''-2m -1s'']]"
    unfolding n0 n61 by (simp add: number_text_minus)
  from s61 s0 f g h i j show ?thesis
    unfolding fileLogPrefix_def c by (simp add: plain_colors_def)
qed

section \<open>The credential provisioner\<close>

lemma authenticate_script_events:
  "map step_event (authenticate_script env) = authenticate_events env"
  by (simp add: authenticate_script_def authenticate_events_def OUTPUT_STORAGE_KEY_FILE_def
      OUTPUT_STORAGE_SERVICE_ACCOUNT_def OUTPUT_STORAGE_PROJECT_ID_def)

lemma authenticate_script_length: "length (authenticate_script env) = 6"
  by (simp add: authenticate_script_def)

lemma no_await_authenticate_script: "\<forall>s \<in> set (authenticate_script env). \<forall>e. s \<noteq> SAwait e"
  by (simp add: authenticate_script_def)

lemma all_ok_Normal:
  assumes "status w = Normal" "\<forall>h c. cmd_status env h c = 0" "\<forall>h e. \<not> rejects env h e"
  shows "status (run_script env ss w) = Normal"
  using assms by (simp add: run_script_all_ok)

lemma all_ok_Normal_no_await:
  assumes "status w = Normal" "\<forall>h c. cmd_status env h c = 0" "\<forall>s \<in> set ss. \<forall>e. s \<noteq> SAwait e"
  shows "status (run_script env ss w) = Normal"
  using assms
proof (induction ss arbitrary: w)
  case Nil
  then show ?case by simp
next
  case (Cons s ss)
  have "step_status env (trace w) s = Normal" using Cons.prems by (cases s) auto
  then have "status (run_step env s w) = Normal" using Cons.prems(1) by (simp add: run_step_eq)
  then show ?case using Cons by simp
qed

text \<open>
  C3, as amended: every call to \<^verbatim>\<open>authenticateWithStorageLocation_\<close> runs, each step
  fatal on failure: the decryption of the encrypted key file with \<^verbatim>\<open>aes-256-cbc\<close>, the
  digest given as \<^verbatim>\<open>-md sha256\<close> and the key read from the environment variable
  \<^verbatim>\<open>GCP_TOKEN\<close>; then the activation of the service account with the decrypted key;
  then three settings of the cloud CLI configuration (account, credential pass-through
  flag, project id); then a listing of the configuration. A complete run sets three pieces
  of configuration, not four.
\<close>

theorem authenticate_steps:
  assumes "status w = Normal"
  shows "(\<exists>k. new_events w (authenticateWithStorageLocation' env w) =
               take k
                 [ExecOrDie (''openssl aes-256-cbc -md sha256 -k '' @ template (GCP_TOKEN env)
                    @ '' -in build-system/sa-travis-key.json.enc -out sa-travis-key.json -d''),
                  ExecOrDie ''gcloud auth activate-service-account --key-file sa-travis-key.json'',
                  ExecOrDie ''gcloud config set account sa-travis@amp-travis-build-storage.iam.gserviceaccount.com'',
                  ExecOrDie ''gcloud config set pass_credentials_to_gsutil true'',
                  ExecOrDie ''gcloud config set project amp-travis-build-storage'',
                  ExecOrDie ''gcloud config list''] \<and>
              (status (authenticateWithStorageLocation' env w) = Normal \<longrightarrow> k = 6)) \<and>
         ((\<forall>h c. cmd_status env h c = 0) \<longrightarrow>
            status (authenticateWithStorageLocation' env w) = Normal) \<and>
         (\<forall>i c. i < length (new_events w (authenticateWithStorageLocation' env w)) \<and>
                 new_events w (authenticateWithStorageLocation' env w) ! i = ExecOrDie c \<and>
                 cmd_status env
                   (trace w @ take i (new_events w (authenticateWithStorageLocation' env w))) c \<noteq> 0
            \<longrightarrow> Suc i = length (new_events w (authenticateWithStorageLocation' env w)) \<and>
                status (authenticateWithStorageLocation' env w) =
                  Exited (cmd_status env
                    (trace w @ take i (new_events w (authenticateWithStorageLocation' env w))) c)) \<and>
         (status (authenticateWithStorageLocation' env w) = Normal \<longrightarrow>
            commands_with ''gcloud config set ''
              (new_events w (authenticateWithStorageLocation' env w)) =
              [''gcloud config set account sa-travis@amp-travis-build-storage.iam.gserviceaccount.com'',
               ''gcloud config set pass_credentials_to_gsutil true'',
               ''gcloud config set project amp-travis-build-storage''])"
proof -
  let ?w' = "authenticateWithStorageLocation' env w"
  have tk: "\<exists>k. new_events w ?w' = take k (authenticate_events env) \<and>
                (status ?w' = Normal \<longrightarrow> k = 6)"
    using run_script_take [OF assms, of env "authenticate_script env"]
    unfolding authenticate_script_events authenticate_script_length
      authenticate_is_script [symmetric] .
  have ok: "(\<forall>h c. cmd_status env h c = 0) \<longrightarrow> status ?w' = Normal"
    using assms
    by (simp add: authenticate_is_script all_ok_Normal_no_await no_await_authenticate_script)
  have fatal: "\<forall>i c. i < length (new_events w ?w') \<and> new_events w ?w' ! i = ExecOrDie c \<and>
                 cmd_status env (trace w @ take i (new_events w ?w')) c \<noteq> 0
            \<longrightarrow> Suc i = length (new_events w ?w') \<and>
                status ?w' = Exited (cmd_status env (trace w @ take i (new_events w ?w')) c)"
    unfolding authenticate_is_script
    using run_script_fatal [OF assms wf_authenticate_script] by blast
  have sets: "status ?w' = Normal \<longrightarrow>
      commands_with ''gcloud config set '' (new_events w ?w') =
        [''gcloud config set account sa-travis@amp-travis-build-storage.iam.gserviceaccount.com'',
         ''gcloud config set pass_credentials_to_gsutil true'',
         ''gcloud config set project amp-travis-build-storage'']"
  proof
    assume "status ?w' = Normal"
    with tk have "new_events w ?w' = authenticate_events env"
      by (auto simp: authenticate_events_def)
    then show "commands_with ''gcloud config set '' (new_events w ?w') =
        [''gcloud config set account sa-travis@amp-travis-build-storage.iam.gserviceaccount.com'',
         ''gcloud config set pass_credentials_to_gsutil true'',
         ''gcloud config set project amp-travis-build-storage'']"
      by (simp add: authenticate_events_def)
  qed
  from tk ok fatal sets show ?thesis
    unfolding authenticate_events_def by blast
qed

lemma run_script_complete:
  assumes "status w = Normal" "status (run_script env ss w) = Normal"
  shows "run_script env ss w = w\<lparr>trace := trace w @ map step_event ss\<rparr>"
proof -
  have "snd (run_from env (trace w) ss) = Normal"
    using assms by (simp add: run_script_status)
  then show ?thesis
    using assms(1) run_from_Normal [of env "trace w" ss] by (simp add: run_script_eq)
qed

lemma authenticate_all_ok:
  assumes "status w = Normal" "\<forall>h c. cmd_status env h c = 0"
  shows "authenticateWithStorageLocation' env w = w\<lparr>trace := trace w @ authenticate_events env\<rparr>"
proof -
  have "status (run_script env (authenticate_script env) w) = Normal"
    using assms by (intro all_ok_Normal_no_await no_await_authenticate_script)
  from run_script_complete [OF assms(1) this] show ?thesis
    unfolding authenticate_script_events authenticate_is_script [symmetric] .
qed

text \<open>
  C3 as the specification words it counts four settings; a complete run issues three
  \<^verbatim>\<open>gcloud config set\<close> commands.
\<close>

theorem authenticate_four_settings_counterexample:
  "length (commands_with ''gcloud config set ''
     (trace (authenticateWithStorageLocation' env_1234 world0))) \<noteq> 4"
proof -
  have "authenticateWithStorageLocation' env_1234 world0 =
          world0\<lparr>trace := trace world0 @ authenticate_events env_1234\<rparr>"
    by (rule authenticate_all_ok) (simp_all add: world0_fields env_1234_fields)
  then show ?thesis
    by (simp add: world0_fields authenticate_events_def)
qed

lemma authenticate_project_fails:
  "new_events world0 (authenticateWithStorageLocation' env_project_fails world0) =
     [ExecOrDie ''openssl aes-256-cbc -md sha256 -k secret -in build-system/sa-travis-key.json.enc -out sa-travis-key.json -d'',
      ExecOrDie ''gcloud auth activate-service-account --key-file sa-travis-key.json'',
      ExecOrDie ''gcloud config set account sa-travis@amp-travis-build-storage.iam.gserviceaccount.com'',
      ExecOrDie ''gcloud config set pass_credentials_to_gsutil true'',
      ExecOrDie ''gcloud config set project amp-travis-build-storage'']"
proof -
  have "new_events world0 (run_script env_project_fails (authenticate_script env_project_fails) world0)
          = fst (run_from env_project_fails (trace world0) (authenticate_script env_project_fails))"
    by (rule run_script_new) (simp add: world0_fields)
  then show ?thesis
    unfolding authenticate_is_script
    by (simp add: world0_fields authenticate_script_def
        env_project_fails_def env_1234_fields template_def OUTPUT_STORAGE_KEY_FILE_def
        OUTPUT_STORAGE_SERVICE_ACCOUNT_def OUTPUT_STORAGE_PROJECT_ID_def)
qed

theorem authenticate_steps_witness:
  "status world0 = Normal \<and>
   status (authenticateWithStorageLocation' env_1234 world0) = Normal \<and>
   new_events world0 (authenticateWithStorageLocation' env_1234 world0) =
     [ExecOrDie ''openssl aes-256-cbc -md sha256 -k secret -in build-system/sa-travis-key.json.enc -out sa-travis-key.json -d'',
      ExecOrDie ''gcloud auth activate-service-account --key-file sa-travis-key.json'',
      ExecOrDie ''gcloud config set account sa-travis@amp-travis-build-storage.iam.gserviceaccount.com'',
      ExecOrDie ''gcloud config set pass_credentials_to_gsutil true'',
      ExecOrDie ''gcloud config set project amp-travis-build-storage'',
      ExecOrDie ''gcloud config list''] \<and>
   status (authenticateWithStorageLocation' env_project_fails world0) = Exited 1 \<and>
   length (new_events world0 (authenticateWithStorageLocation' env_project_fails world0)) = 5"
proof -
  have st: "status world0 = Normal" by (simp add: world0_fields)
  have ok: "\<forall>h c. cmd_status env_1234 h c = 0" by (simp add: env_1234_fields)
  note t = authenticate_steps [OF st, of env_1234]
  from t ok have n: "status (authenticateWithStorageLocation' env_1234 world0) = Normal"
    by blast
  with t have a: "new_events world0 (authenticateWithStorageLocation' env_1234 world0) =
     [ExecOrDie (''openssl aes-256-cbc -md sha256 -k '' @ template (GCP_TOKEN env_1234)
                    @ '' -in build-system/sa-travis-key.json.enc -out sa-travis-key.json -d''),
      ExecOrDie ''gcloud auth activate-service-account --key-file sa-travis-key.json'',
      ExecOrDie ''gcloud config set account sa-travis@amp-travis-build-storage.iam.gserviceaccount.com'',
      ExecOrDie ''gcloud config set pass_credentials_to_gsutil true'',
      ExecOrDie ''gcloud config set project amp-travis-build-storage'',
      ExecOrDie ''gcloud config list'']"
    by auto
  note f = authenticate_steps [OF st, of env_project_fails]
  let ?new = "new_events world0 (authenticateWithStorageLocation' env_project_fails world0)"
  have p: "4 < length ?new \<and>
           ?new ! 4 = ExecOrDie ''gcloud config set project amp-travis-build-storage'' \<and>
           cmd_status env_project_fails (trace world0 @ take 4 ?new)
             ''gcloud config set project amp-travis-build-storage'' \<noteq> 0"
    unfolding authenticate_project_fails by (simp add: env_project_fails_def)
  from f p have "Suc 4 = length ?new \<and>
      status (authenticateWithStorageLocation' env_project_fails world0) =
        Exited (cmd_status env_project_fails (trace world0 @ take 4 ?new)
                  ''gcloud config set project amp-travis-build-storage'')"
    by blast
  then have b: "status (authenticateWithStorageLocation' env_project_fails world0) = Exited 1"
    and c: "length ?new = 5"
    by (simp_all add: env_project_fails_def)
  from st n a b c show ?thesis
    by (simp add: env_1234_fields template_def)
qed

section \<open>Upload\<close>

lemma upload_script_events:
  "map step_event (upload_script env fn file dirs) =
     [ConsoleLog
                    [CHR 0x0A # fileLogPrefix env fn @ '' Compressing ''
                       @ cyan (colors env) (join '', '' (split_on CHR '' '' dirs))
                       @ '' into '' @ cyan (colors env) file @ ''...''],
                  Exec ''echo travis_fold:start:zip_results && echo'',
                  ExecOrDie (''zip -r '' @ file @ '' '' @ dirs),
                  Exec ''echo travis_fold:end:zip_results'',
                  ConsoleLog
                    [fileLogPrefix env fn @ '' Uploading '' @ cyan (colors env) file
                       @ '' to '' @ cyan (colors env) ''gs://amp-travis-builds'' @ ''...''],
                  Exec ''echo travis_fold:start:upload_results && echo'']
                @ authenticate_events env
                @ [ExecOrDie (''gsutil -m cp -r '' @ file @ '' gs://amp-travis-builds''),
                    Exec ''echo travis_fold:end:upload_results'']"
  by (simp add: upload_script_def authenticate_script_events OUTPUT_STORAGE_LOCATION_def)

lemma upload_script_length: "length (upload_script env fn file dirs) = 14"
  by (simp add: upload_script_def authenticate_script_def)

lemma no_await_upload_script:
  "\<forall>s \<in> set (upload_script env fn file dirs). \<forall>e. s \<noteq> SAwait e"
  by (simp add: upload_script_def authenticate_script_def)

lemma upload_take:
  assumes "status w = Normal"
  shows "\<exists>k. new_events w (uploadOutput' env fn file dirs w) =
               take k
                 ([ConsoleLog
                    [CHR 0x0A # fileLogPrefix env fn @ '' Compressing ''
                       @ cyan (colors env) (join '', '' (split_on CHR '' '' dirs))
                       @ '' into '' @ cyan (colors env) file @ ''...''],
                  Exec ''echo travis_fold:start:zip_results && echo'',
                  ExecOrDie (''zip -r '' @ file @ '' '' @ dirs),
                  Exec ''echo travis_fold:end:zip_results'',
                  ConsoleLog
                    [fileLogPrefix env fn @ '' Uploading '' @ cyan (colors env) file
                       @ '' to '' @ cyan (colors env) ''gs://amp-travis-builds'' @ ''...''],
                  Exec ''echo travis_fold:start:upload_results && echo'']
                @ authenticate_events env
                @ [ExecOrDie (''gsutil -m cp -r '' @ file @ '' gs://amp-travis-builds''),
                    Exec ''echo travis_fold:end:upload_results'']) \<and>
              (status (uploadOutput' env fn file dirs w) = Normal \<longrightarrow> k = 14)"
  using run_script_take [OF assms, of env "upload_script env fn file dirs"]
  unfolding upload_script_events upload_script_length upload_is_script [symmetric] .

lemma upload_all_ok:
  assumes "status w = Normal" "\<forall>h c. cmd_status env h c = 0"
  shows "uploadOutput' env fn file dirs w =
           w\<lparr>trace := trace w @
                ([ConsoleLog
                    [CHR 0x0A # fileLogPrefix env fn @ '' Compressing ''
                       @ cyan (colors env) (join '', '' (split_on CHR '' '' dirs))
                       @ '' into '' @ cyan (colors env) file @ ''...''],
                  Exec ''echo travis_fold:start:zip_results && echo'',
                  ExecOrDie (''zip -r '' @ file @ '' '' @ dirs),
                  Exec ''echo travis_fold:end:zip_results'',
                  ConsoleLog
                    [fileLogPrefix env fn @ '' Uploading '' @ cyan (colors env) file
                       @ '' to '' @ cyan (colors env) ''gs://amp-travis-builds'' @ ''...''],
                  Exec ''echo travis_fold:start:upload_results && echo'']
                @ authenticate_events env
                @ [ExecOrDie (''gsutil -m cp -r '' @ file @ '' gs://amp-travis-builds''),
                    Exec ''echo travis_fold:end:upload_results''])\<rparr>"
proof -
  have "status (run_script env (upload_script env fn file dirs) w) = Normal"
    using assms by (intro all_ok_Normal_no_await no_await_upload_script)
  from run_script_complete [OF assms(1) this] show ?thesis
    unfolding upload_script_events upload_is_script [symmetric] .
qed

lemma upload_1234:
  assumes "status w = Normal" "\<forall>h c. cmd_status env h c = 0"
    and "isTravisBuild env" "travisBuildNumber env = ''1234''"
  shows "occurrences (authenticate_events env) (new_events w (uploadBuildOutput env fn w)) = 1"
    and "commands_with ''gsutil '' (new_events w (uploadBuildOutput env fn w)) =
           [''gsutil -m cp -r amp_build_1234.zip gs://amp-travis-builds'']"
    and "map destination (commands_with ''gsutil '' (new_events w (uploadBuildOutput env fn w))) =
           [''gs://amp-travis-builds'']"
    and "sublist (authenticate_events env
                    @ [ExecOrDie ''gsutil -m cp -r amp_build_1234.zip gs://amp-travis-builds''])
           (new_events w (uploadBuildOutput env fn w))"
proof -
  have f: "BUILD_OUTPUT_FILE env = ''amp_build_1234.zip''"
    using assms(3,4) by (simp add: BUILD_OUTPUT_FILE_def)
  let ?new = "new_events w (uploadBuildOutput env fn w)"
  have n: "?new = [ConsoleLog
                    [CHR 0x0A # fileLogPrefix env fn @ '' Compressing ''
                       @ cyan (colors env) (join '', '' (split_on CHR '' '' BUILD_OUTPUT_DIRS))
                       @ '' into '' @ cyan (colors env) ''amp_build_1234.zip'' @ ''...''],
                  Exec ''echo travis_fold:start:zip_results && echo'',
                  ExecOrDie (''zip -r '' @ ''amp_build_1234.zip'' @ '' '' @ BUILD_OUTPUT_DIRS),
                  Exec ''echo travis_fold:end:zip_results'',
                  ConsoleLog
                    [fileLogPrefix env fn @ '' Uploading '' @ cyan (colors env) ''amp_build_1234.zip''
                       @ '' to '' @ cyan (colors env) ''gs://amp-travis-builds'' @ ''...''],
                  Exec ''echo travis_fold:start:upload_results && echo'']
                @ authenticate_events env
                @ [ExecOrDie (''gsutil -m cp -r '' @ ''amp_build_1234.zip'' @ '' gs://amp-travis-builds''),
                    Exec ''echo travis_fold:end:upload_results'']"
    unfolding uploadBuildOutput_def f upload_all_ok [OF assms(1,2)] by simp
  show "occurrences (authenticate_events env) ?new = 1"
    unfolding n by (simp add: authenticate_events_def)
  show c: "commands_with ''gsutil '' ?new =
           [''gsutil -m cp -r amp_build_1234.zip gs://amp-travis-builds'']"
    unfolding n by (simp add: authenticate_events_def)
  show "map destination (commands_with ''gsutil '' ?new) = [''gs://amp-travis-builds'']"
    unfolding c by (simp add: destination_def)
  show "sublist (authenticate_events env
                    @ [ExecOrDie ''gsutil -m cp -r amp_build_1234.zip gs://amp-travis-builds''])
           ?new"
  proof -
    have "?new = ([ConsoleLog
                    [CHR 0x0A # fileLogPrefix env fn @ '' Compressing ''
                       @ cyan (colors env) (join '', '' (split_on CHR '' '' BUILD_OUTPUT_DIRS))
                       @ '' into '' @ cyan (colors env) ''amp_build_1234.zip'' @ ''...''],
                  Exec ''echo travis_fold:start:zip_results && echo'',
                  ExecOrDie (''zip -r '' @ ''amp_build_1234.zip'' @ '' '' @ BUILD_OUTPUT_DIRS),
                  Exec ''echo travis_fold:end:zip_results'',
                  ConsoleLog
                    [fileLogPrefix env fn @ '' Uploading '' @ cyan (colors env) ''amp_build_1234.zip''
                       @ '' to '' @ cyan (colors env) ''gs://amp-travis-builds'' @ ''...''],
                  Exec ''echo travis_fold:start:upload_results && echo''])
        @ (authenticate_events env
             @ [ExecOrDie ''gsutil -m cp -r amp_build_1234.zip gs://amp-travis-builds''])
        @ [Exec ''echo travis_fold:end:upload_results'']"
      unfolding n by simp
    then show ?thesis by (simp only: sublist_appendI)
  qed
qed

text \<open>
  C1, as amended: both upload entry points run \<^verbatim>\<open>uploadOutput_\<close>, whose steps come in
  this order: pack the directory set into the named archive, then authenticate, then copy
  the archive to the bucket, the copy following the authentication at once. A run that
  is cut short by a fatal command stops somewhere along this sequence. With run-id 1234
  and every command succeeding, uploading the Build archive authenticates exactly once
  and then issues exactly one copy command,
  \<^verbatim>\<open>gsutil -m cp -r amp_build_1234.zip gs://amp-travis-builds\<close>: its source is the
  archive and its destination argument is the bucket \<^verbatim>\<open>gs://amp-travis-builds\<close>.
\<close>

theorem upload_order:
  assumes "status w = Normal"
  shows "uploadBuildOutput env fn w =
           uploadOutput' env fn (BUILD_OUTPUT_FILE env) BUILD_OUTPUT_DIRS w \<and>
         uploadDistOutput env fn w =
           uploadOutput' env fn (DIST_OUTPUT_FILE env) DIST_OUTPUT_DIRS w \<and>
         (\<exists>k. new_events w (uploadOutput' env fn file dirs w) =
               take k
                 ([ConsoleLog
                    [CHR 0x0A # fileLogPrefix env fn @ '' Compressing ''
                       @ cyan (colors env) (join '', '' (split_on CHR '' '' dirs))
                       @ '' into '' @ cyan (colors env) file @ ''...''],
                  Exec ''echo travis_fold:start:zip_results && echo'',
                  ExecOrDie (''zip -r '' @ file @ '' '' @ dirs),
                  Exec ''echo travis_fold:end:zip_results'',
                  ConsoleLog
                    [fileLogPrefix env fn @ '' Uploading '' @ cyan (colors env) file
                       @ '' to '' @ cyan (colors env) ''gs://amp-travis-builds'' @ ''...''],
                  Exec ''echo travis_fold:start:upload_results && echo'']
                @ authenticate_events env
                @ [ExecOrDie (''gsutil -m cp -r '' @ file @ '' gs://amp-travis-builds''),
                    Exec ''echo travis_fold:end:upload_results'']) \<and>
              (status (uploadOutput' env fn file dirs w) = Normal \<longrightarrow> k = 14)) \<and>
         ((\<forall>h c. cmd_status env h c = 0) \<longrightarrow>
            status (uploadOutput' env fn file dirs w) = Normal) \<and>
         (isTravisBuild env \<and> travisBuildNumber env = ''1234'' \<and>
          (\<forall>h c. cmd_status env h c = 0) \<longrightarrow>
            occurrences (authenticate_events env)
              (new_events w (uploadBuildOutput env fn w)) = 1 \<and>
            commands_with ''gsutil '' (new_events w (uploadBuildOutput env fn w)) =
              [''gsutil -m cp -r amp_build_1234.zip gs://amp-travis-builds''] \<and>
            map destination
              (commands_with ''gsutil '' (new_events w (uploadBuildOutput env fn w))) =
              [''gs://amp-travis-builds''] \<and>
            sublist
              (authenticate_events env
                 @ [ExecOrDie ''gsutil -m cp -r amp_build_1234.zip gs://amp-travis-builds''])
              (new_events w (uploadBuildOutput env fn w)))"
proof -
  have ok: "(\<forall>h c. cmd_status env h c = 0) \<longrightarrow>
              status (uploadOutput' env fn file dirs w) = Normal"
    using assms by (simp add: upload_all_ok)
  have b: "uploadBuildOutput env fn w =
             uploadOutput' env fn (BUILD_OUTPUT_FILE env) BUILD_OUTPUT_DIRS w"
    by (simp add: uploadBuildOutput_def)
  have d: "uploadDistOutput env fn w =
             uploadOutput' env fn (DIST_OUTPUT_FILE env) DIST_OUTPUT_DIRS w"
    by (simp add: uploadDistOutput_def)
  have s: "isTravisBuild env \<and> travisBuildNumber env = ''1234'' \<and>
          (\<forall>h c. cmd_status env h c = 0) \<longrightarrow>
            occurrences (authenticate_events env)
              (new_events w (uploadBuildOutput env fn w)) = 1 \<and>
            commands_with ''gsutil '' (new_events w (uploadBuildOutput env fn w)) =
              [''gsutil -m cp -r amp_build_1234.zip gs://amp-travis-builds''] \<and>
            map destination
              (commands_with ''gsutil '' (new_events w (uploadBuildOutput env fn w))) =
              [''gs://amp-travis-builds''] \<and>
            sublist
              (authenticate_events env
                 @ [ExecOrDie ''gsutil -m cp -r amp_build_1234.zip gs://amp-travis-builds''])
              (new_events w (uploadBuildOutput env fn w))"
  proof
    assume h: "isTravisBuild env \<and> travisBuildNumber env = ''1234'' \<and>
          (\<forall>h c. cmd_status env h c = 0)"
    then have h1: "\<forall>h c. cmd_status env h c = 0" and h2: "isTravisBuild env"
      and h3: "travisBuildNumber env = ''1234''" by blast+
    from upload_1234 [OF assms h1 h2 h3, of fn] show
       "occurrences (authenticate_events env)
              (new_events w (uploadBuildOutput env fn w)) = 1 \<and>
            commands_with ''gsutil '' (new_events w (uploadBuildOutput env fn w)) =
              [''gsutil -m cp -r amp_build_1234.zip gs://amp-travis-builds''] \<and>
            map destination
              (commands_with ''gsutil '' (new_events w (uploadBuildOutput env fn w))) =
              [''gs://amp-travis-builds''] \<and>
            sublist
              (authenticate_events env
                 @ [ExecOrDie ''gsutil -m cp -r amp_build_1234.zip gs://amp-travis-builds''])
              (new_events w (uploadBuildOutput env fn w))"
      by blast
  qed
  have t: "\<exists>k. new_events w (uploadOutput' env fn file dirs w) =
               take k
                 ([ConsoleLog
                    [CHR 0x0A # fileLogPrefix env fn @ '' Compressing ''
                       @ cyan (colors env) (join '', '' (split_on CHR '' '' dirs))
                       @ '' into '' @ cyan (colors env) file @ ''...''],
                  Exec ''echo travis_fold:start:zip_results && echo'',
                  ExecOrDie (''zip -r '' @ file @ '' '' @ dirs),
                  Exec ''echo travis_fold:end:zip_results'',
                  ConsoleLog
                    [fileLogPrefix env fn @ '' Uploading '' @ cyan (colors env) file
                       @ '' to '' @ cyan (colors env) ''gs://amp-travis-builds'' @ ''...''],
                  Exec ''echo travis_fold:start:upload_results && echo'']
                @ authenticate_events env
                @ [ExecOrDie (''gsutil -m cp -r '' @ file @ '' gs://amp-travis-builds''),
                    Exec ''echo travis_fold:end:upload_results'']) \<and>
              (status (uploadOutput' env fn file dirs w) = Normal \<longrightarrow> k = 14)"
    by (rule upload_take [OF assms])
  from b d t ok s show ?thesis
    by blast
qed

text \<open>
  C1 as the specification words it gives the copy command the destination argument
  \<^verbatim>\<open>gs://amp-travis-builds/amp_build_1234.zip\<close>; the command names only the bucket.
\<close>

theorem upload_destination_counterexample:
  "map destination
     (commands_with ''gsutil '' (trace (uploadBuildOutput env_1234 ''build'' world0)))
   \<noteq> [''gs://amp-travis-builds/amp_build_1234.zip'']"
proof -
  have "map destination
          (commands_with ''gsutil ''
             (new_events world0 (uploadBuildOutput env_1234 ''build'' world0)))
        = [''gs://amp-travis-builds'']"
    by (rule upload_1234) (simp_all add: world0_fields env_1234_fields)
  then show ?thesis
    by (simp add: new_events_def world0_fields)
qed

theorem upload_order_witness:
  "status world0 = Normal \<and>
   new_events world0 (uploadBuildOutput env_1234 ''build'' world0) =
     [ConsoleLog [CHR 0x0A # ''build: Compressing build/, dist/, dist.3p/, EXTENSIONS_CSS_MAP into amp_build_1234.zip...''],
      Exec ''echo travis_fold:start:zip_results && echo'',
      ExecOrDie ''zip -r amp_build_1234.zip build/ dist/ dist.3p/ EXTENSIONS_CSS_MAP'',
      Exec ''echo travis_fold:end:zip_results'',
      ConsoleLog [''build: Uploading amp_build_1234.zip to gs://amp-travis-builds...''],
      Exec ''echo travis_fold:start:upload_results && echo'',
      ExecOrDie ''openssl aes-256-cbc -md sha256 -k secret -in build-system/sa-travis-key.json.enc -out sa-travis-key.json -d'',
      ExecOrDie ''gcloud auth activate-service-account --key-file sa-travis-key.json'',
      ExecOrDie ''gcloud config set account sa-travis@amp-travis-build-storage.iam.gserviceaccount.com'',
      ExecOrDie ''gcloud config set pass_credentials_to_gsutil true'',
      ExecOrDie ''gcloud config set project amp-travis-build-storage'',
      ExecOrDie ''gcloud config list'',
      ExecOrDie ''gsutil -m cp -r amp_build_1234.zip gs://amp-travis-builds'',
      Exec ''echo travis_fold:end:upload_results''] \<and>
   map destination
     (commands_with ''gsutil '' (new_events world0 (uploadBuildOutput env_1234 ''build'' world0))) =
     [''gs://amp-travis-builds'']"
proof -
  have st: "status world0 = Normal" by (simp add: world0_fields)
  have ok: "\<forall>h c. cmd_status env_1234 h c = 0" by (simp add: env_1234_fields)
  have f: "BUILD_OUTPUT_FILE env_1234 = ''amp_build_1234.zip''"
    by (simp add: BUILD_OUTPUT_FILE_def env_1234_fields)
  note t = upload_order [OF st, of env_1234 "''build''" "BUILD_OUTPUT_FILE env_1234" BUILD_OUTPUT_DIRS]
  from t ok have n: "status (uploadOutput' env_1234 ''build'' (BUILD_OUTPUT_FILE env_1234)
                       BUILD_OUTPUT_DIRS world0) = Normal"
    by blast
  from t have e: "uploadBuildOutput env_1234 ''build'' world0 =
           uploadOutput' env_1234 ''build'' (BUILD_OUTPUT_FILE env_1234) BUILD_OUTPUT_DIRS world0"
    by blast
  from t n have a: "new_events world0 (uploadBuildOutput env_1234 ''build'' world0) =
      ([ConsoleLog
                    [CHR 0x0A # fileLogPrefix env_1234 ''build'' @ '' Compressing ''
                       @ cyan (colors env_1234) (join '', '' (split_on CHR '' '' BUILD_OUTPUT_DIRS))
                       @ '' into '' @ cyan (colors env_1234) (BUILD_OUTPUT_FILE env_1234) @ ''...''],
                  Exec ''echo travis_fold:start:zip_results && echo'',
                  ExecOrDie (''zip -r '' @ (BUILD_OUTPUT_FILE env_1234) @ '' '' @ BUILD_OUTPUT_DIRS),
                  Exec ''echo travis_fold:end:zip_results'',
                  ConsoleLog
                    [fileLogPrefix env_1234 ''build'' @ '' Uploading '' @ cyan (colors env_1234) (BUILD_OUTPUT_FILE env_1234)
                       @ '' to '' @ cyan (colors env_1234) ''gs://amp-travis-builds'' @ ''...''],
                  Exec ''echo travis_fold:start:upload_results && echo'']
                @ authenticate_events env_1234
                @ [ExecOrDie (''gsutil -m cp -r '' @ (BUILD_OUTPUT_FILE env_1234) @ '' gs://amp-travis-builds''),
                    Exec ''echo travis_fold:end:upload_results''])"
    unfolding e by (auto simp: authenticate_events_def)
  have tb: "isTravisBuild env_1234 \<and> travisBuildNumber env_1234 = ''1234'' \<and>
            (\<forall>h c. cmd_status env_1234 h c = 0)"
    by (simp add: env_1234_fields)
  from t tb have d: "map destination
     (commands_with ''gsutil '' (new_events world0 (uploadBuildOutput env_1234 ''build'' world0))) =
     [''gs://amp-travis-builds'']"
    by blast
  have a': "new_events world0 (uploadBuildOutput env_1234 ''build'' world0) =
     [ConsoleLog [CHR 0x0A # ''build: Compressing build/, dist/, dist.3p/, EXTENSIONS_CSS_MAP into amp_build_1234.zip...''],
      Exec ''echo travis_fold:start:zip_results && echo'',
      ExecOrDie ''zip -r amp_build_1234.zip build/ dist/ dist.3p/ EXTENSIONS_CSS_MAP'',
      Exec ''echo travis_fold:end:zip_results'',
      ConsoleLog [''build: Uploading amp_build_1234.zip to gs://amp-travis-builds...''],
      Exec ''echo travis_fold:start:upload_results && echo'',
      ExecOrDie ''openssl aes-256-cbc -md sha256 -k secret -in build-system/sa-travis-key.json.enc -out sa-travis-key.json -d'',
      ExecOrDie ''gcloud auth activate-service-account --key-file sa-travis-key.json'',
      ExecOrDie ''gcloud config set account sa-travis@amp-travis-build-storage.iam.gserviceaccount.com'',
      ExecOrDie ''gcloud config set pass_credentials_to_gsutil true'',
      ExecOrDie ''gcloud config set project amp-travis-build-storage'',
      ExecOrDie ''gcloud config list'',
      ExecOrDie ''gsutil -m cp -r amp_build_1234.zip gs://amp-travis-builds'',
      Exec ''echo travis_fold:end:upload_results'']"
    unfolding a f
    by (simp add: authenticate_events_def fileLogPrefix_def env_1234_fields plain_colors_def
        template_def BUILD_OUTPUT_DIRS_def)
  from st a' d show ?thesis by blast
qed

section \<open>Download\<close>

lemma download_script_events:
  "map step_event (download_script env fn file dirs) =
     [ConsoleLog
                    [fileLogPrefix env fn @ '' Downloading build output from ''
                       @ cyan (colors env) (''gs://amp-travis-builds/'' @ file) @ ''...''],
                  Exec ''echo travis_fold:start:download_results && echo'']
                @ authenticate_events env
                @ [ExecOrDie (''gsutil cp gs://amp-travis-builds/'' @ file @ '' '' @ file),
                   Exec ''echo travis_fold:end:download_results'',
                   ConsoleLog
                     [fileLogPrefix env fn @ '' Extracting '' @ cyan (colors env) file
                        @ ''...''],
                   Exec ''echo travis_fold:start:unzip_results && echo'',
                   ExecOrDie (''unzip -o '' @ file),
                   Exec ''echo travis_fold:end:unzip_results'',
                   ConsoleLog [fileLogPrefix env fn, ''Verifying extracted files...''],
                   Exec ''echo travis_fold:start:verify_unzip_results && echo'',
                   ExecOrDie (''ls -laR '' @ dirs),
                   Exec ''echo travis_fold:end:verify_unzip_results'']"
  by (simp add: download_script_def authenticate_script_events OUTPUT_STORAGE_LOCATION_def)

lemma download_script_length: "length (download_script env fn file dirs) = 18"
  by (simp add: download_script_def authenticate_script_def)

lemma no_await_download_script:
  "\<forall>s \<in> set (download_script env fn file dirs). \<forall>e. s \<noteq> SAwait e"
  by (simp add: download_script_def authenticate_script_def)

lemma download_take:
  assumes "status w = Normal"
  shows "\<exists>k. new_events w (downloadOutput' env fn file dirs w) =
               take k
                 ([ConsoleLog
                    [fileLogPrefix env fn @ '' Downloading build output from ''
                       @ cyan (colors env) (''gs://amp-travis-builds/'' @ file) @ ''...''],
                  Exec ''echo travis_fold:start:download_results && echo'']
                @ authenticate_events env
                @ [ExecOrDie (''gsutil cp gs://amp-travis-builds/'' @ file @ '' '' @ file),
                   Exec ''echo travis_fold:end:download_results'',
                   ConsoleLog
                     [fileLogPrefix env fn @ '' Extracting '' @ cyan (colors env) file
                        @ ''...''],
                   Exec ''echo travis_fold:start:unzip_results && echo'',
                   ExecOrDie (''unzip -o '' @ file),
                   Exec ''echo travis_fold:end:unzip_results'',
                   ConsoleLog [fileLogPrefix env fn, ''Verifying extracted files...''],
                   Exec ''echo travis_fold:start:verify_unzip_results && echo'',
                   ExecOrDie (''ls -laR '' @ dirs),
                   Exec ''echo travis_fold:end:verify_unzip_results'']) \<and>
              (status (downloadOutput' env fn file dirs w) = Normal \<longrightarrow> k = 18)"
  using run_script_take [OF assms, of env "download_script env fn file dirs"]
  unfolding download_script_events download_script_length download_is_script [symmetric] .

lemma download_all_ok:
  assumes "status w = Normal" "\<forall>h c. cmd_status env h c = 0"
  shows "status (downloadOutput' env fn file dirs w) = Normal"
  unfolding download_is_script
  using assms by (intro all_ok_Normal_no_await no_await_download_script)

lemma download_fatal:
  assumes "status w = Normal"
  shows "\<forall>i c. i < length (new_events w (downloadOutput' env fn file dirs w)) \<and>
                 new_events w (downloadOutput' env fn file dirs w) ! i = ExecOrDie c \<and>
                 cmd_status env
                   (trace w @ take i (new_events w (downloadOutput' env fn file dirs w))) c \<noteq> 0
            \<longrightarrow> Suc i = length (new_events w (downloadOutput' env fn file dirs w)) \<and>
                status (downloadOutput' env fn file dirs w) =
                  Exited (cmd_status env
                    (trace w @ take i (new_events w (downloadOutput' env fn file dirs w))) c)"
  unfolding download_is_script
  using run_script_fatal [OF assms wf_download_script] by blast

text \<open>
  C2: both download entry points run \<^verbatim>\<open>downloadOutput_\<close>, whose steps come in this
  order: authenticate, copy the archive object from the bucket to local disk, extract it in
  place with \<^verbatim>\<open>unzip -o\<close> (existing files are overwritten), then list the expected
  output directories recursively. A run that is cut short stops somewhere along this
  sequence, and a command that fails, the listing among them, is the last event of the
  run and ends the process with its status.
\<close>

theorem download_order:
  assumes "status w = Normal"
  shows "downloadBuildOutput env fn w =
           downloadOutput' env fn (BUILD_OUTPUT_FILE env) BUILD_OUTPUT_DIRS w \<and>
         downloadDistOutput env fn w =
           downloadOutput' env fn (DIST_OUTPUT_FILE env) DIST_OUTPUT_DIRS w \<and>
         (\<exists>k. new_events w (downloadOutput' env fn file dirs w) =
               take k
                 ([ConsoleLog
                    [fileLogPrefix env fn @ '' Downloading build output from ''
                       @ cyan (colors env) (''gs://amp-travis-builds/'' @ file) @ ''...''],
                  Exec ''echo travis_fold:start:download_results && echo'']
                @ authenticate_events env
                @ [ExecOrDie (''gsutil cp gs://amp-travis-builds/'' @ file @ '' '' @ file),
                   Exec ''echo travis_fold:end:download_results'',
                   ConsoleLog
                     [fileLogPrefix env fn @ '' Extracting '' @ cyan (colors env) file
                        @ ''...''],
                   Exec ''echo travis_fold:start:unzip_results && echo'',
                   ExecOrDie (''unzip -o '' @ file),
                   Exec ''echo travis_fold:end:unzip_results'',
                   ConsoleLog [fileLogPrefix env fn, ''Verifying extracted files...''],
                   Exec ''echo travis_fold:start:verify_unzip_results && echo'',
                   ExecOrDie (''ls -laR '' @ dirs),
                   Exec ''echo travis_fold:end:verify_unzip_results'']) \<and>
              (status (downloadOutput' env fn file dirs w) = Normal \<longrightarrow> k = 18)) \<and>
         ((\<forall>h c. cmd_status env h c = 0) \<longrightarrow>
            status (downloadOutput' env fn file dirs w) = Normal) \<and>
         (\<forall>i c. i < length (new_events w (downloadOutput' env fn file dirs w)) \<and>
                 new_events w (downloadOutput' env fn file dirs w) ! i = ExecOrDie c \<and>
                 cmd_status env
                   (trace w @ take i (new_events w (downloadOutput' env fn file dirs w))) c \<noteq> 0
            \<longrightarrow> Suc i = length (new_events w (downloadOutput' env fn file dirs w)) \<and>
                status (downloadOutput' env fn file dirs w) =
                  Exited (cmd_status env
                    (trace w @ take i (new_events w (downloadOutput' env fn file dirs w))) c))"
proof -
  have b: "downloadBuildOutput env fn w =
             downloadOutput' env fn (BUILD_OUTPUT_FILE env) BUILD_OUTPUT_DIRS w"
    by (simp add: downloadBuildOutput_def)
  have d: "downloadDistOutput env fn w =
             downloadOutput' env fn (DIST_OUTPUT_FILE env) DIST_OUTPUT_DIRS w"
    by (simp add: downloadDistOutput_def)
  have t: "\<exists>k. new_events w (downloadOutput' env fn file dirs w) =
               take k
                 ([ConsoleLog
                    [fileLogPrefix env fn @ '' Downloading build output from ''
                       @ cyan (colors env) (''gs://amp-travis-builds/'' @ file) @ ''...''],
                  Exec ''echo travis_fold:start:download_results && echo'']
                @ authenticate_events env
                @ [ExecOrDie (''gsutil cp gs://amp-travis-builds/'' @ file @ '' '' @ file),
                   Exec ''echo travis_fold:end:download_results'',
                   ConsoleLog
                     [fileLogPrefix env fn @ '' Extracting '' @ cyan (colors env) file
                        @ ''...''],
                   Exec ''echo travis_fold:start:unzip_results && echo'',
                   ExecOrDie (''unzip -o '' @ file),
                   Exec ''echo travis_fold:end:unzip_results'',
                   ConsoleLog [fileLogPrefix env fn, ''Verifying extracted files...''],
                   Exec ''echo travis_fold:start:verify_unzip_results && echo'',
                   ExecOrDie (''ls -laR '' @ dirs),
                   Exec ''echo travis_fold:end:verify_unzip_results'']) \<and>
              (status (downloadOutput' env fn file dirs w) = Normal \<longrightarrow> k = 18)"
    by (rule download_take [OF assms])
  have ok: "(\<forall>h c. cmd_status env h c = 0) \<longrightarrow>
              status (downloadOutput' env fn file dirs w) = Normal"
    using assms by (simp add: download_all_ok)
  have f: "\<forall>i c. i < length (new_events w (downloadOutput' env fn file dirs w)) \<and>
                 new_events w (downloadOutput' env fn file dirs w) ! i = ExecOrDie c \<and>
                 cmd_status env
                   (trace w @ take i (new_events w (downloadOutput' env fn file dirs w))) c \<noteq> 0
            \<longrightarrow> Suc i = length (new_events w (downloadOutput' env fn file dirs w)) \<and>
                status (downloadOutput' env fn file dirs w) =
                  Exited (cmd_status env
                    (trace w @ take i (new_events w (downloadOutput' env fn file dirs w))) c)"
    by (rule download_fatal [OF assms])
  from b d t ok f show ?thesis by (intro conjI)
qed

lemma download_ls_fails:
  "new_events world0
     (downloadOutput' env_ls_fails ''build'' ''amp_build_1234.zip'' BUILD_OUTPUT_DIRS world0) =
     [ConsoleLog [''build: Downloading build output from gs://amp-travis-builds/amp_build_1234.zip...''],
      Exec ''echo travis_fold:start:download_results && echo'',
      ExecOrDie ''openssl aes-256-cbc -md sha256 -k secret -in build-system/sa-travis-key.json.enc -out sa-travis-key.json -d'',
      ExecOrDie ''gcloud auth activate-service-account --key-file sa-travis-key.json'',
      ExecOrDie ''gcloud config set account sa-travis@amp-travis-build-storage.iam.gserviceaccount.com'',
      ExecOrDie ''gcloud config set pass_credentials_to_gsutil true'',
      ExecOrDie ''gcloud config set project amp-travis-build-storage'',
      ExecOrDie ''gcloud config list'',
      ExecOrDie ''gsutil cp gs://amp-travis-builds/amp_build_1234.zip amp_build_1234.zip'',
      Exec ''echo travis_fold:end:download_results'',
      ConsoleLog [''build: Extracting amp_build_1234.zip...''],
      Exec ''echo travis_fold:start:unzip_results && echo'',
      ExecOrDie ''unzip -o amp_build_1234.zip'',
      Exec ''echo travis_fold:end:unzip_results'',
      ConsoleLog [''build:'', ''Verifying extracted files...''],
      Exec ''echo travis_fold:start:verify_unzip_results && echo'',
      ExecOrDie ''ls -laR build/ dist/ dist.3p/ EXTENSIONS_CSS_MAP'']"
  by (simp add: download_is_script download_script_def authenticate_script_def
      execOrDie_def emit_def Let_def new_events_def world0_def
      env_ls_fails_def env_1234_fields template_def OUTPUT_STORAGE_KEY_FILE_def
      OUTPUT_STORAGE_SERVICE_ACCOUNT_def OUTPUT_STORAGE_PROJECT_ID_def
      OUTPUT_STORAGE_LOCATION_def BUILD_OUTPUT_DIRS_def fileLogPrefix_def plain_colors_def)

theorem download_order_witness:
  "status world0 = Normal \<and>
   status (downloadBuildOutput env_1234 ''build'' world0) = Normal \<and>
   new_events world0 (downloadBuildOutput env_1234 ''build'' world0) =
     [ConsoleLog [''build: Downloading build output from gs://amp-travis-builds/amp_build_1234.zip...''],
      Exec ''echo travis_fold:start:download_results && echo'',
      ExecOrDie ''openssl aes-256-cbc -md sha256 -k secret -in build-system/sa-travis-key.json.enc -out sa-travis-key.json -d'',
      ExecOrDie ''gcloud auth activate-service-account --key-file sa-travis-key.json'',
      ExecOrDie ''gcloud config set account sa-travis@amp-travis-build-storage.iam.gserviceaccount.com'',
      ExecOrDie ''gcloud config set pass_credentials_to_gsutil true'',
      ExecOrDie ''gcloud config set project amp-travis-build-storage'',
      ExecOrDie ''gcloud config list'',
      ExecOrDie ''gsutil cp gs://amp-travis-builds/amp_build_1234.zip amp_build_1234.zip'',
      Exec ''echo travis_fold:end:download_results'',
      ConsoleLog [''build: Extracting amp_build_1234.zip...''],
      Exec ''echo travis_fold:start:unzip_results && echo'',
      ExecOrDie ''unzip -o amp_build_1234.zip'',
      Exec ''echo travis_fold:end:unzip_results'',
      ConsoleLog [''build:'', ''Verifying extracted files...''],
      Exec ''echo travis_fold:start:verify_unzip_results && echo'',
      ExecOrDie ''ls -laR build/ dist/ dist.3p/ EXTENSIONS_CSS_MAP'',
      Exec ''echo travis_fold:end:verify_unzip_results''] \<and>
   status (downloadBuildOutput env_ls_fails ''build'' world0) = Exited 2 \<and>
   last (new_events world0 (downloadBuildOutput env_ls_fails ''build'' world0)) =
     ExecOrDie ''ls -laR build/ dist/ dist.3p/ EXTENSIONS_CSS_MAP''"
proof -
  have st: "status world0 = Normal" by (simp add: world0_fields)
  have ok: "\<forall>h c. cmd_status env_1234 h c = 0" by (simp add: env_1234_fields)
  have f: "BUILD_OUTPUT_FILE env_1234 = ''amp_build_1234.zip''"
    by (simp add: BUILD_OUTPUT_FILE_def env_1234_fields)
  have f': "BUILD_OUTPUT_FILE env_ls_fails = ''amp_build_1234.zip''"
    by (simp add: BUILD_OUTPUT_FILE_def env_ls_fails_def env_1234_fields)
  note t = download_order [OF st, of env_1234 "''build''" "''amp_build_1234.zip''" BUILD_OUTPUT_DIRS]
  from t have e: "downloadBuildOutput env_1234 ''build'' world0 =
      downloadOutput' env_1234 ''build'' ''amp_build_1234.zip'' BUILD_OUTPUT_DIRS world0"
    unfolding f by blast
  from t ok have n: "status (downloadOutput' env_1234 ''build'' ''amp_build_1234.zip''
                       BUILD_OUTPUT_DIRS world0) = Normal"
    by blast
  from t n have "new_events world0
       (downloadOutput' env_1234 ''build'' ''amp_build_1234.zip'' BUILD_OUTPUT_DIRS world0) =
      ([ConsoleLog
                    [fileLogPrefix env_1234 ''build'' @ '' Downloading build output from ''
                       @ cyan (colors env_1234) (''gs://amp-travis-builds/'' @ ''amp_build_1234.zip'') @ ''...''],
                  Exec ''echo travis_fold:start:download_results && echo'']
                @ authenticate_events env_1234
                @ [ExecOrDie (''gsutil cp gs://amp-travis-builds/'' @ ''amp_build_1234.zip'' @ '' '' @ ''amp_build_1234.zip''),
                   Exec ''echo travis_fold:end:download_results'',
                   ConsoleLog
                     [fileLogPrefix env_1234 ''build'' @ '' Extracting '' @ cyan (colors env_1234) ''amp_build_1234.zip''
                        @ ''...''],
                   Exec ''echo travis_fold:start:unzip_results && echo'',
                   ExecOrDie (''unzip -o '' @ ''amp_build_1234.zip''),
                   Exec ''echo travis_fold:end:unzip_results'',
                   ConsoleLog [fileLogPrefix env_1234 ''build'', ''Verifying extracted files...''],
                   Exec ''echo travis_fold:start:verify_unzip_results && echo'',
                   ExecOrDie (''ls -laR '' @ BUILD_OUTPUT_DIRS),
                   Exec ''echo travis_fold:end:verify_unzip_results''])"
    by (auto simp: authenticate_events_def)
  then have a: "new_events world0 (downloadBuildOutput env_1234 ''build'' world0) =
     [ConsoleLog [''build: Downloading build output from gs://amp-travis-builds/amp_build_1234.zip...''],
      Exec ''echo travis_fold:start:download_results && echo'',
      ExecOrDie ''openssl aes-256-cbc -md sha256 -k secret -in build-system/sa-travis-key.json.enc -out sa-travis-key.json -d'',
      ExecOrDie ''gcloud auth activate-service-account --key-file sa-travis-key.json'',
      ExecOrDie ''gcloud config set account sa-travis@amp-travis-build-storage.iam.gserviceaccount.com'',
      ExecOrDie ''gcloud config set pass_credentials_to_gsutil true'',
      ExecOrDie ''gcloud config set project amp-travis-build-storage'',
      ExecOrDie ''gcloud config list'',
      ExecOrDie ''gsutil cp gs://amp-travis-builds/amp_build_1234.zip amp_build_1234.zip'',
      Exec ''echo travis_fold:end:download_results'',
      ConsoleLog [''build: Extracting amp_build_1234.zip...''],
      Exec ''echo travis_fold:start:unzip_results && echo'',
      ExecOrDie ''unzip -o amp_build_1234.zip'',
      Exec ''echo travis_fold:end:unzip_results'',
      ConsoleLog [''build:'', ''Verifying extracted files...''],
      Exec ''echo travis_fold:start:verify_unzip_results && echo'',
      ExecOrDie ''ls -laR build/ dist/ dist.3p/ EXTENSIONS_CSS_MAP'',
      Exec ''echo travis_fold:end:verify_unzip_results'']"
    unfolding e
    by (simp add: authenticate_events_def fileLogPrefix_def env_1234_fields plain_colors_def
        template_def BUILD_OUTPUT_DIRS_def)
  note u = download_order [OF st, of env_ls_fails "''build''" "''amp_build_1234.zip''" BUILD_OUTPUT_DIRS]
  from u have e': "downloadBuildOutput env_ls_fails ''build'' world0 =
      downloadOutput' env_ls_fails ''build'' ''amp_build_1234.zip'' BUILD_OUTPUT_DIRS world0"
    unfolding f' by blast
  let ?new = "new_events world0
     (downloadOutput' env_ls_fails ''build'' ''amp_build_1234.zip'' BUILD_OUTPUT_DIRS world0)"
  have p: "16 < length ?new \<and>
           ?new ! 16 = ExecOrDie (''ls -laR '' @ BUILD_OUTPUT_DIRS) \<and>
           cmd_status env_ls_fails (trace world0 @ take 16 ?new)
             (''ls -laR '' @ BUILD_OUTPUT_DIRS) \<noteq> 0"
    unfolding download_ls_fails by (simp add: env_ls_fails_def BUILD_OUTPUT_DIRS_def)
  from u p have "Suc 16 = length ?new \<and>
      status (downloadOutput' env_ls_fails ''build'' ''amp_build_1234.zip''
                BUILD_OUTPUT_DIRS world0) =
        Exited (cmd_status env_ls_fails (trace world0 @ take 16 ?new)
                  (''ls -laR '' @ BUILD_OUTPUT_DIRS))"
    by blast
  then have b: "status (downloadBuildOutput env_ls_fails ''build'' world0) = Exited 2"
    unfolding e' by (simp add: env_ls_fails_def)
  have c: "last (new_events world0 (downloadBuildOutput env_ls_fails ''build'' world0)) =
     ExecOrDie ''ls -laR build/ dist/ dist.3p/ EXTENSIONS_CSS_MAP''"
    unfolding e' download_ls_fails by simp
  from n have n': "status (downloadBuildOutput env_1234 ''build'' world0) = Normal"
    unfolding e .
  from st n' a b c show ?thesis by (intro conjI)
qed

section \<open>Rewriting, uploading and signalling\<close>

lemma process_script_events:
  "map step_event (process_script env fn) =
     [ReplaceUrls ''test/manual'',
                  ReplaceUrls ''examples'',
                  ConsoleLog
                    [CHR 0x0A # fileLogPrefix env fn @ '' Compressing ''
                       @ cyan (colors env) (join '', '' (split_on CHR '' '' DIST_OUTPUT_DIRS))
                       @ '' into '' @ cyan (colors env) (DIST_OUTPUT_FILE env) @ ''...''],
                  Exec ''echo travis_fold:start:zip_results && echo'',
                  ExecOrDie (''zip -r '' @ DIST_OUTPUT_FILE env @ '' '' @ DIST_OUTPUT_DIRS),
                  Exec ''echo travis_fold:end:zip_results'',
                  ConsoleLog
                    [fileLogPrefix env fn @ '' Uploading ''
                       @ cyan (colors env) (DIST_OUTPUT_FILE env)
                       @ '' to '' @ cyan (colors env) ''gs://amp-travis-builds'' @ ''...''],
                  Exec ''echo travis_fold:start:upload_results && echo'']
                @ authenticate_events env
                @ [ExecOrDie (''gsutil -m cp -r '' @ DIST_OUTPUT_FILE env
                                @ '' gs://amp-travis-builds''),
                   Exec ''echo travis_fold:end:upload_results'',
                   SignalDistUploadComplete]"
  by (simp add: process_script_def upload_script_events)

lemma process_script_length: "length (process_script env fn) = 17"
  by (simp add: process_script_def upload_script_length)

lemma process_take:
  assumes "status w = Normal"
  shows "\<exists>k. new_events w (processAndUploadDistOutput env fn w) =
               take k
                 ([ReplaceUrls ''test/manual'',
                  ReplaceUrls ''examples'',
                  ConsoleLog
                    [CHR 0x0A # fileLogPrefix env fn @ '' Compressing ''
                       @ cyan (colors env) (join '', '' (split_on CHR '' '' DIST_OUTPUT_DIRS))
                       @ '' into '' @ cyan (colors env) (DIST_OUTPUT_FILE env) @ ''...''],
                  Exec ''echo travis_fold:start:zip_results && echo'',
                  ExecOrDie (''zip -r '' @ DIST_OUTPUT_FILE env @ '' '' @ DIST_OUTPUT_DIRS),
                  Exec ''echo travis_fold:end:zip_results'',
                  ConsoleLog
                    [fileLogPrefix env fn @ '' Uploading ''
                       @ cyan (colors env) (DIST_OUTPUT_FILE env)
                       @ '' to '' @ cyan (colors env) ''gs://amp-travis-builds'' @ ''...''],
                  Exec ''echo travis_fold:start:upload_results && echo'']
                @ authenticate_events env
                @ [ExecOrDie (''gsutil -m cp -r '' @ DIST_OUTPUT_FILE env
                                @ '' gs://amp-travis-builds''),
                   Exec ''echo travis_fold:end:upload_results'',
                   SignalDistUploadComplete]) \<and>
              (status (processAndUploadDistOutput env fn w) = Normal \<longrightarrow> k = 17)"
  using run_script_take [OF assms, of env "process_script env fn"]
  unfolding process_script_events process_script_length process_is_script [symmetric] .

lemma process_all_ok:
  assumes "status w = Normal" "\<forall>h c. cmd_status env h c = 0" "\<forall>h e. \<not> rejects env h e"
  shows "status (processAndUploadDistOutput env fn w) = Normal"
  unfolding process_is_script using assms by (rule all_ok_Normal)

lemma process_fatal:
  assumes "status w = Normal"
    and "i < length (new_events w (processAndUploadDistOutput env fn w))"
    and "new_events w (processAndUploadDistOutput env fn w) ! i = ExecOrDie c"
    and "cmd_status env (trace w @ take i (new_events w (processAndUploadDistOutput env fn w))) c \<noteq> 0"
  shows "Suc i = length (new_events w (processAndUploadDistOutput env fn w))"
proof -
  have a: "i < length (new_events w (run_script env (process_script env fn) w))"
    using assms(2) by (simp add: process_is_script)
  have b: "new_events w (run_script env (process_script env fn) w) ! i = ExecOrDie c"
    using assms(3) by (simp add: process_is_script)
  have c: "cmd_status env (trace w @ take i (new_events w (run_script env (process_script env fn) w))) c \<noteq> 0"
    using assms(4) by (simp add: process_is_script)
  from run_script_fatal [OF assms(1) wf_process_script a b c] show ?thesis
    by (simp add: process_is_script)
qed

lemma process_zip_after_rewrites:
  assumes "status w = Normal"
    and "i < length (new_events w (processAndUploadDistOutput env fn w))"
    and "new_events w (processAndUploadDistOutput env fn w) ! i = ExecOrDie (''zip -r '' @ DIST_OUTPUT_FILE env @ '' '' @ DIST_OUTPUT_DIRS)"
  shows "1 < i \<and> new_events w (processAndUploadDistOutput env fn w) ! 0 = ReplaceUrls ''test/manual'' \<and>
         new_events w (processAndUploadDistOutput env fn w) ! 1 = ReplaceUrls ''examples''"
proof -
  define full where "full = [ReplaceUrls ''test/manual'',
                  ReplaceUrls ''examples'',
                  ConsoleLog
                    [CHR 0x0A # fileLogPrefix env fn @ '' Compressing ''
                       @ cyan (colors env) (join '', '' (split_on CHR '' '' DIST_OUTPUT_DIRS))
                       @ '' into '' @ cyan (colors env) (DIST_OUTPUT_FILE env) @ ''...''],
                  Exec ''echo travis_fold:start:zip_results && echo'',
                  ExecOrDie (''zip -r '' @ DIST_OUTPUT_FILE env @ '' '' @ DIST_OUTPUT_DIRS),
                  Exec ''echo travis_fold:end:zip_results'',
                  ConsoleLog
                    [fileLogPrefix env fn @ '' Uploading ''
                       @ cyan (colors env) (DIST_OUTPUT_FILE env)
                       @ '' to '' @ cyan (colors env) ''gs://amp-travis-builds'' @ ''...''],
                  Exec ''echo travis_fold:start:upload_results && echo'']
                @ authenticate_events env
                @ [ExecOrDie (''gsutil -m cp -r '' @ DIST_OUTPUT_FILE env
                                @ '' gs://amp-travis-builds''),
                   Exec ''echo travis_fold:end:upload_results'',
                   SignalDistUploadComplete]"
  from process_take [OF assms(1), of env fn] obtain k
    where k: "new_events w (processAndUploadDistOutput env fn w) = take k full"
    unfolding full_def by blast
  have ik: "i < k" using assms(2) k by simp
  have f0: "full ! 0 = ReplaceUrls ''test/manual''" by (simp add: full_def)
  have f1: "full ! 1 = ReplaceUrls ''examples''" by (simp add: full_def)
  have ni: "full ! i = ExecOrDie (''zip -r '' @ DIST_OUTPUT_FILE env @ '' '' @ DIST_OUTPUT_DIRS)"
    using assms(3) ik k by simp
  have "i \<noteq> 0"
  proof
    assume "i = 0"
    with ni f0 show False by simp
  qed
  moreover have "i \<noteq> 1"
  proof
    assume "i = 1"
    with ni f1 show False by simp
  qed
  ultimately have i1: "1 < i" by arith
  with ik have "0 < k" "1 < k" by arith+
  then have "new_events w (processAndUploadDistOutput env fn w) ! 0 = full ! 0" "new_events w (processAndUploadDistOutput env fn w) ! 1 = full ! 1"
    using k by simp_all
  with f0 f1 i1 show ?thesis by simp
qed

lemma process_signal_last:
  assumes "status w = Normal"
    and "i < length (new_events w (processAndUploadDistOutput env fn w))"
    and "new_events w (processAndUploadDistOutput env fn w) ! i = SignalDistUploadComplete"
  shows "i = 16 \<and>
         new_events w (processAndUploadDistOutput env fn w) ! 14 = ExecOrDie (''gsutil -m cp -r '' @ DIST_OUTPUT_FILE env @ '' gs://amp-travis-builds'') \<and>
         cmd_status env (trace w @ take 14 (new_events w (processAndUploadDistOutput env fn w)))
           (''gsutil -m cp -r '' @ DIST_OUTPUT_FILE env @ '' gs://amp-travis-builds'') = 0"
proof -
  define pre where "pre = [ReplaceUrls ''test/manual'',
                  ReplaceUrls ''examples'',
                  ConsoleLog
                    [CHR 0x0A # fileLogPrefix env fn @ '' Compressing ''
                       @ cyan (colors env) (join '', '' (split_on CHR '' '' DIST_OUTPUT_DIRS))
                       @ '' into '' @ cyan (colors env) (DIST_OUTPUT_FILE env) @ ''...''],
                  Exec ''echo travis_fold:start:zip_results && echo'',
                  ExecOrDie (''zip -r '' @ DIST_OUTPUT_FILE env @ '' '' @ DIST_OUTPUT_DIRS),
                  Exec ''echo travis_fold:end:zip_results'',
                  ConsoleLog
                    [fileLogPrefix env fn @ '' Uploading ''
                       @ cyan (colors env) (DIST_OUTPUT_FILE env)
                       @ '' to '' @ cyan (colors env) ''gs://amp-travis-builds'' @ ''...''],
                  Exec ''echo travis_fold:start:upload_results && echo'']
                @ authenticate_events env
                @ [ExecOrDie (''gsutil -m cp -r '' @ DIST_OUTPUT_FILE env
                                @ '' gs://amp-travis-builds''),
                   Exec ''echo travis_fold:end:upload_results'']"
  have full: "[ReplaceUrls ''test/manual'',
                  ReplaceUrls ''examples'',
                  ConsoleLog
                    [CHR 0x0A # fileLogPrefix env fn @ '' Compressing ''
                       @ cyan (colors env) (join '', '' (split_on CHR '' '' DIST_OUTPUT_DIRS))
                       @ '' into '' @ cyan (colors env) (DIST_OUTPUT_FILE env) @ ''...''],
                  Exec ''echo travis_fold:start:zip_results && echo'',
                  ExecOrDie (''zip -r '' @ DIST_OUTPUT_FILE env @ '' '' @ DIST_OUTPUT_DIRS),
                  Exec ''echo travis_fold:end:zip_results'',
                  ConsoleLog
                    [fileLogPrefix env fn @ '' Uploading ''
                       @ cyan (colors env) (DIST_OUTPUT_FILE env)
                       @ '' to '' @ cyan (colors env) ''gs://amp-travis-builds'' @ ''...''],
                  Exec ''echo travis_fold:start:upload_results && echo'']
                @ authenticate_events env
                @ [ExecOrDie (''gsutil -m cp -r '' @ DIST_OUTPUT_FILE env
                                @ '' gs://amp-travis-builds''),
                   Exec ''echo travis_fold:end:upload_results'',
                   SignalDistUploadComplete] = pre @ [SignalDistUploadComplete]"
    by (simp add: pre_def)
  have lp: "length pre = 16" by (simp add: pre_def authenticate_events_def)
  have np: "SignalDistUploadComplete \<notin> set pre"
    by (simp add: pre_def authenticate_events_def)
  have p14: "pre ! 14 = ExecOrDie (''gsutil -m cp -r '' @ DIST_OUTPUT_FILE env @ '' gs://amp-travis-builds'')"
    by (simp add: pre_def authenticate_events_def)
  from process_take [OF assms(1), of env fn] obtain k
    where k: "new_events w (processAndUploadDistOutput env fn w) = take k (pre @ [SignalDistUploadComplete])"
    unfolding full by blast
  have ik: "i < k" and i17: "i < 17" using assms(2) k lp by simp_all
  have "take k (pre @ [SignalDistUploadComplete]) ! i = (pre @ [SignalDistUploadComplete]) ! i"
    using ik by (rule nth_take)
  with assms(3) have ni: "(pre @ [SignalDistUploadComplete]) ! i = SignalDistUploadComplete"
    by (simp only: k)
  have "\<not> i < 16"
  proof
    assume "i < 16"
    then have "pre ! i = SignalDistUploadComplete" using ni lp by (simp add: nth_append)
    moreover have "pre ! i \<in> set pre" using \<open>i < 16\<close> lp by simp
    ultimately show False using np by simp
  qed
  with i17 have i16: "i = 16" by arith
  with ik have k16: "16 < k" by simp
  then have len: "length (new_events w (processAndUploadDistOutput env fn w)) = 17"
    using k lp by simp
  have n14: "new_events w (processAndUploadDistOutput env fn w) ! 14 = ExecOrDie (''gsutil -m cp -r '' @ DIST_OUTPUT_FILE env @ '' gs://amp-travis-builds'')"
    using k k16 lp p14 by (simp add: nth_append)
  have "cmd_status env (trace w @ take 14 (new_events w (processAndUploadDistOutput env fn w)))
           (''gsutil -m cp -r '' @ DIST_OUTPUT_FILE env @ '' gs://amp-travis-builds'') = 0"
  proof (rule ccontr)
    assume "cmd_status env (trace w @ take 14 (new_events w (processAndUploadDistOutput env fn w)))
           (''gsutil -m cp -r '' @ DIST_OUTPUT_FILE env @ '' gs://amp-travis-builds'') \<noteq> 0"
    from process_fatal [OF assms(1) _ n14 this] len show False by simp
  qed
  with i16 n14 show ?thesis by blast
qed

text \<open>
  C4: in every run of \<^verbatim>\<open>processAndUploadDistOutput\<close> the URL rewrite is invoked on
  \<^verbatim>\<open>test/manual\<close> and on \<^verbatim>\<open>examples\<close> before the archive is packed, so before the
  upload; and the upload-complete signal is emitted only as the last step, after the copy
  to the bucket has succeeded.
\<close>

theorem process_order:
  assumes "status w = Normal"
  shows "(\<exists>k. new_events w (processAndUploadDistOutput env fn w) =
               take k
                 ([ReplaceUrls ''test/manual'',
                  ReplaceUrls ''examples'',
                  ConsoleLog
                    [CHR 0x0A # fileLogPrefix env fn @ '' Compressing ''
                       @ cyan (colors env) (join '', '' (split_on CHR '' '' DIST_OUTPUT_DIRS))
                       @ '' into '' @ cyan (colors env) (DIST_OUTPUT_FILE env) @ ''...''],
                  Exec ''echo travis_fold:start:zip_results && echo'',
                  ExecOrDie (''zip -r '' @ DIST_OUTPUT_FILE env @ '' '' @ DIST_OUTPUT_DIRS),
                  Exec ''echo travis_fold:end:zip_results'',
                  ConsoleLog
                    [fileLogPrefix env fn @ '' Uploading ''
                       @ cyan (colors env) (DIST_OUTPUT_FILE env)
                       @ '' to '' @ cyan (colors env) ''gs://amp-travis-builds'' @ ''...''],
                  Exec ''echo travis_fold:start:upload_results && echo'']
                @ authenticate_events env
                @ [ExecOrDie (''gsutil -m cp -r '' @ DIST_OUTPUT_FILE env
                                @ '' gs://amp-travis-builds''),
                   Exec ''echo travis_fold:end:upload_results'',
                   SignalDistUploadComplete]) \<and>
              (status (processAndUploadDistOutput env fn w) = Normal \<longrightarrow> k = 17)) \<and>
         ((\<forall>h c. cmd_status env h c = 0) \<and> (\<forall>h e. \<not> rejects env h e) \<longrightarrow>
            status (processAndUploadDistOutput env fn w) = Normal) \<and>
         (\<forall>i. i < length (new_events w (processAndUploadDistOutput env fn w)) \<and>
              new_events w (processAndUploadDistOutput env fn w) ! i = ExecOrDie (''zip -r '' @ DIST_OUTPUT_FILE env @ '' '' @ DIST_OUTPUT_DIRS)
            \<longrightarrow> 1 < i \<and> new_events w (processAndUploadDistOutput env fn w) ! 0 = ReplaceUrls ''test/manual'' \<and>
                new_events w (processAndUploadDistOutput env fn w) ! 1 = ReplaceUrls ''examples'') \<and>
         (\<forall>i. i < length (new_events w (processAndUploadDistOutput env fn w)) \<and>
              new_events w (processAndUploadDistOutput env fn w) ! i = SignalDistUploadComplete
            \<longrightarrow> i = 16 \<and>
                new_events w (processAndUploadDistOutput env fn w) ! 14 = ExecOrDie (''gsutil -m cp -r '' @ DIST_OUTPUT_FILE env @ '' gs://amp-travis-builds'') \<and>
                cmd_status env (trace w @ take 14 (new_events w (processAndUploadDistOutput env fn w)))
                  (''gsutil -m cp -r '' @ DIST_OUTPUT_FILE env @ '' gs://amp-travis-builds'') = 0)"
proof -
  have t: "\<exists>k. new_events w (processAndUploadDistOutput env fn w) =
               take k
                 ([ReplaceUrls ''test/manual'',
                  ReplaceUrls ''examples'',
                  ConsoleLog
                    [CHR 0x0A # fileLogPrefix env fn @ '' Compressing ''
                       @ cyan (colors env) (join '', '' (split_on CHR '' '' DIST_OUTPUT_DIRS))
                       @ '' into '' @ cyan (colors env) (DIST_OUTPUT_FILE env) @ ''...''],
                  Exec ''echo travis_fold:start:zip_results && echo'',
                  ExecOrDie (''zip -r '' @ DIST_OUTPUT_FILE env @ '' '' @ DIST_OUTPUT_DIRS),
                  Exec ''echo travis_fold:end:zip_results'',
                  ConsoleLog
                    [fileLogPrefix env fn @ '' Uploading ''
                       @ cyan (colors env) (DIST_OUTPUT_FILE env)
                       @ '' to '' @ cyan (colors env) ''gs://amp-travis-builds'' @ ''...''],
                  Exec ''echo travis_fold:start:upload_results && echo'']
                @ authenticate_events env
                @ [ExecOrDie (''gsutil -m cp -r '' @ DIST_OUTPUT_FILE env
                                @ '' gs://amp-travis-builds''),
                   Exec ''echo travis_fold:end:upload_results'',
                   SignalDistUploadComplete]) \<and>
              (status (processAndUploadDistOutput env fn w) = Normal \<longrightarrow> k = 17)"
    by (rule process_take [OF assms])
  have ok: "(\<forall>h c. cmd_status env h c = 0) \<and> (\<forall>h e. \<not> rejects env h e) \<longrightarrow>
            status (processAndUploadDistOutput env fn w) = Normal"
    using assms by (simp add: process_all_ok)
  have z: "\<forall>i. i < length (new_events w (processAndUploadDistOutput env fn w)) \<and>
              new_events w (processAndUploadDistOutput env fn w) ! i = ExecOrDie (''zip -r '' @ DIST_OUTPUT_FILE env @ '' '' @ DIST_OUTPUT_DIRS)
            \<longrightarrow> 1 < i \<and> new_events w (processAndUploadDistOutput env fn w) ! 0 = ReplaceUrls ''test/manual'' \<and>
                new_events w (processAndUploadDistOutput env fn w) ! 1 = ReplaceUrls ''examples''"
    using process_zip_after_rewrites [OF assms] by blast
  have g: "\<forall>i. i < length (new_events w (processAndUploadDistOutput env fn w)) \<and>
              new_events w (processAndUploadDistOutput env fn w) ! i = SignalDistUploadComplete
            \<longrightarrow> i = 16 \<and>
                new_events w (processAndUploadDistOutput env fn w) ! 14 = ExecOrDie (''gsutil -m cp -r '' @ DIST_OUTPUT_FILE env @ '' gs://amp-travis-builds'') \<and>
                cmd_status env (trace w @ take 14 (new_events w (processAndUploadDistOutput env fn w)))
                  (''gsutil -m cp -r '' @ DIST_OUTPUT_FILE env @ '' gs://amp-travis-builds'') = 0"
    using process_signal_last [OF assms] by blast
  from t ok z g show ?thesis by (intro conjI)
qed

theorem process_order_witness:
  "status world0 = Normal \<and>
   status (processAndUploadDistOutput env_1234 ''dist'' world0) = Normal \<and>
   new_events world0 (processAndUploadDistOutput env_1234 ''dist'' world0) =
     [ReplaceUrls ''test/manual'',
      ReplaceUrls ''examples'',
      ConsoleLog [CHR 0x0A # ''dist: Compressing build/, dist/, dist.3p/, dist.tools/, EXTENSIONS_CSS_MAP, examples/, test/manual/ into amp_dist_1234.zip...''],
      Exec ''echo travis_fold:start:zip_results && echo'',
      ExecOrDie ''zip -r amp_dist_1234.zip build/ dist/ dist.3p/ dist.tools/ EXTENSIONS_CSS_MAP examples/ test/manual/'',
      Exec ''echo travis_fold:end:zip_results'',
      ConsoleLog [''dist: Uploading amp_dist_1234.zip to gs://amp-travis-builds...''],
      Exec ''echo travis_fold:start:upload_results && echo'',
      ExecOrDie ''openssl aes-256-cbc -md sha256 -k secret -in build-system/sa-travis-key.json.enc -out sa-travis-key.json -d'',
      ExecOrDie ''gcloud auth activate-service-account --key-file sa-travis-key.json'',
      ExecOrDie ''gcloud config set account sa-travis@amp-travis-build-storage.iam.gserviceaccount.com'',
      ExecOrDie ''gcloud config set pass_credentials_to_gsutil true'',
      ExecOrDie ''gcloud config set project amp-travis-build-storage'',
      ExecOrDie ''gcloud config list'',
      ExecOrDie ''gsutil -m cp -r amp_dist_1234.zip gs://amp-travis-builds'',
      Exec ''echo travis_fold:end:upload_results'',
      SignalDistUploadComplete]"
proof -
  have st: "status world0 = Normal" by (simp add: world0_fields)
  have ok: "(\<forall>h c. cmd_status env_1234 h c = 0) \<and> (\<forall>h e. \<not> rejects env_1234 h e)"
    by (simp add: env_1234_fields)
  have f: "DIST_OUTPUT_FILE env_1234 = ''amp_dist_1234.zip''"
    by (simp add: DIST_OUTPUT_FILE_def env_1234_fields)
  note t = process_order [OF st, of env_1234 "''dist''"]
  from t ok have n: "status (processAndUploadDistOutput env_1234 ''dist'' world0) = Normal"
    by blast
  from t n have "new_events world0 (processAndUploadDistOutput env_1234 ''dist'' world0) =
      ([ReplaceUrls ''test/manual'',
                  ReplaceUrls ''examples'',
                  ConsoleLog
                    [CHR 0x0A # fileLogPrefix env_1234 ''dist'' @ '' Compressing ''
                       @ cyan (colors env_1234) (join '', '' (split_on CHR '' '' DIST_OUTPUT_DIRS))
                       @ '' into '' @ cyan (colors env_1234) (DIST_OUTPUT_FILE env_1234) @ ''...''],
                  Exec ''echo travis_fold:start:zip_results && echo'',
                  ExecOrDie (''zip -r '' @ DIST_OUTPUT_FILE env_1234 @ '' '' @ DIST_OUTPUT_DIRS),
                  Exec ''echo travis_fold:end:zip_results'',
                  ConsoleLog
                    [fileLogPrefix env_1234 ''dist'' @ '' Uploading ''
                       @ cyan (colors env_1234) (DIST_OUTPUT_FILE env_1234)
                       @ '' to '' @ cyan (colors env_1234) ''gs://amp-travis-builds'' @ ''...''],
                  Exec ''echo travis_fold:start:upload_results && echo'']
                @ authenticate_events env_1234
                @ [ExecOrDie (''gsutil -m cp -r '' @ DIST_OUTPUT_FILE env_1234
                                @ '' gs://amp-travis-builds''),
                   Exec ''echo travis_fold:end:upload_results'',
                   SignalDistUploadComplete])"
    by (auto simp: authenticate_events_def)
  then have a: "new_events world0 (processAndUploadDistOutput env_1234 ''dist'' world0) =
     [ReplaceUrls ''test/manual'',
      ReplaceUrls ''examples'',
      ConsoleLog [CHR 0x0A # ''dist: Compressing build/, dist/, dist.3p/, dist.tools/, EXTENSIONS_CSS_MAP, examples/, test/manual/ into amp_dist_1234.zip...''],
      Exec ''echo travis_fold:start:zip_results && echo'',
      ExecOrDie ''zip -r amp_dist_1234.zip build/ dist/ dist.3p/ dist.tools/ EXTENSIONS_CSS_MAP examples/ test/manual/'',
      Exec ''echo travis_fold:end:zip_results'',
      ConsoleLog [''dist: Uploading amp_dist_1234.zip to gs://amp-travis-builds...''],
      Exec ''echo travis_fold:start:upload_results && echo'',
      ExecOrDie ''openssl aes-256-cbc -md sha256 -k secret -in build-system/sa-travis-key.json.enc -out sa-travis-key.json -d'',
      ExecOrDie ''gcloud auth activate-service-account --key-file sa-travis-key.json'',
      ExecOrDie ''gcloud config set account sa-travis@amp-travis-build-storage.iam.gserviceaccount.com'',
      ExecOrDie ''gcloud config set pass_credentials_to_gsutil true'',
      ExecOrDie ''gcloud config set project amp-travis-build-storage'',
      ExecOrDie ''gcloud config list'',
      ExecOrDie ''gsutil -m cp -r amp_dist_1234.zip gs://amp-travis-builds'',
      Exec ''echo travis_fold:end:upload_results'',
      SignalDistUploadComplete]"
    unfolding f
    by (simp add: authenticate_events_def fileLogPrefix_def env_1234_fields plain_colors_def
        template_def DIST_OUTPUT_DIRS_def)
  from st n a show ?thesis by (intro conjI)
qed

section \<open>Outside Travis\<close>

lemma run_from_take3:
  "take 3 (fst (run_from env h (SEmit a # SEmit b # SDie c # ss))) = [a, b, ExecOrDie c]"
  by simp

lemma script_take3:
  assumes "status w = Normal" "ss = SEmit a # SEmit b # SDie c # ss'"
  shows "take 3 (new_events w (run_script env ss w)) = [a, b, ExecOrDie c]"
  unfolding run_script_new [OF assms(1)] assms(2) by (rule run_from_take3)

lemma upload_take3:
  assumes "status w = Normal"
  shows "take 3 (new_events w (uploadOutput' env fn '''' dirs w)) =
            [ConsoleLog
               [CHR 0x0A # fileLogPrefix env fn @ '' Compressing ''
                  @ cyan (colors env) (join '', '' (split_on CHR '' '' dirs))
                  @ '' into '' @ cyan (colors env) '''' @ ''...''],
             Exec ''echo travis_fold:start:zip_results && echo'',
             ExecOrDie (''zip -r  '' @ dirs)]"
  unfolding upload_is_script
  by (rule script_take3 [OF assms]) (simp add: upload_script_def)

lemma download_take3:
  assumes "status w = Normal"
  shows "take 3 (new_events w (downloadOutput' env fn '''' dirs w)) =
            [ConsoleLog
               [fileLogPrefix env fn @ '' Downloading build output from ''
                  @ cyan (colors env) ''gs://amp-travis-builds/'' @ ''...''],
             Exec ''echo travis_fold:start:download_results && echo'',
             ExecOrDie (''openssl aes-256-cbc -md sha256 -k '' @ template (GCP_TOKEN env)
                @ '' -in build-system/sa-travis-key.json.enc -out sa-travis-key.json -d'')]"
  unfolding download_is_script
  by (rule script_take3 [OF assms])
     (simp add: download_script_def authenticate_script_def OUTPUT_STORAGE_LOCATION_def
        OUTPUT_STORAGE_KEY_FILE_def)

lemma download_all_ok_trace:
  assumes "status w = Normal" "\<forall>h c. cmd_status env h c = 0"
  shows "new_events w (downloadOutput' env fn file dirs w) =
           [ConsoleLog
                    [fileLogPrefix env fn @ '' Downloading build output from ''
                       @ cyan (colors env) (''gs://amp-travis-builds/'' @ file) @ ''...''],
                  Exec ''echo travis_fold:start:download_results && echo'']
                @ authenticate_events env
                @ [ExecOrDie (''gsutil cp gs://amp-travis-builds/'' @ file @ '' '' @ file),
                   Exec ''echo travis_fold:end:download_results'',
                   ConsoleLog
                     [fileLogPrefix env fn @ '' Extracting '' @ cyan (colors env) file
                        @ ''...''],
                   Exec ''echo travis_fold:start:unzip_results && echo'',
                   ExecOrDie (''unzip -o '' @ file),
                   Exec ''echo travis_fold:end:unzip_results'',
                   ConsoleLog [fileLogPrefix env fn, ''Verifying extracted files...''],
                   Exec ''echo travis_fold:start:verify_unzip_results && echo'',
                   ExecOrDie (''ls -laR '' @ dirs),
                   Exec ''echo travis_fold:end:verify_unzip_results'']"
proof -
  have "status (run_script env (download_script env fn file dirs) w) = Normal"
    using assms by (intro all_ok_Normal_no_await no_await_download_script)
  from run_script_complete [OF assms(1) this] show ?thesis
    unfolding download_script_events download_is_script [symmetric] by simp
qed

lemma upload_empty_commands:
  assumes "status w = Normal" "\<forall>h c. cmd_status env h c = 0"
  shows "commands_with ''gsutil '' (new_events w (uploadOutput' env fn '''' dirs w)) =
           [''gsutil -m cp -r  gs://amp-travis-builds'']"
  unfolding upload_all_ok [OF assms] by (simp add: authenticate_events_def)

lemma download_empty_commands:
  assumes "status w = Normal" "\<forall>h c. cmd_status env h c = 0"
  shows "commands_with ''gsutil '' (new_events w (downloadOutput' env fn '''' dirs w)) =
           [''gsutil cp gs://amp-travis-builds/ '']"
    and "commands_with ''unzip '' (new_events w (downloadOutput' env fn '''' dirs w)) =
           [''unzip -o '']"
  unfolding download_all_ok_trace [OF assms] by (simp_all add: authenticate_events_def)

text \<open>
  C9: when \<^verbatim>\<open>isTravisBuild()\<close> is false, \<^verbatim>\<open>BUILD_OUTPUT_FILE\<close> and
  \<^verbatim>\<open>DIST_OUTPUT_FILE\<close> are the empty string, and the four transfer entry points do not
  fail fast: every upload issues the \<^verbatim>\<open>zip\<close> command with an empty archive name as its
  first command, every download starts to authenticate, and when the commands succeed the
  copy and extract commands are issued with the empty name as well.
\<close>

theorem empty_archive_name_outside_travis:
  assumes "\<not> isTravisBuild env" and "status w = Normal"
  shows "BUILD_OUTPUT_FILE env = '''' \<and> DIST_OUTPUT_FILE env = '''' \<and>
         uploadBuildOutput env fn w = uploadOutput' env fn '''' BUILD_OUTPUT_DIRS w \<and>
         uploadDistOutput env fn w = uploadOutput' env fn '''' DIST_OUTPUT_DIRS w \<and>
         downloadBuildOutput env fn w = downloadOutput' env fn '''' BUILD_OUTPUT_DIRS w \<and>
         downloadDistOutput env fn w = downloadOutput' env fn '''' DIST_OUTPUT_DIRS w \<and>
         take 3 (new_events w (uploadOutput' env fn '''' dirs w)) =
            [ConsoleLog
               [CHR 0x0A # fileLogPrefix env fn @ '' Compressing ''
                  @ cyan (colors env) (join '', '' (split_on CHR '' '' dirs))
                  @ '' into '' @ cyan (colors env) '''' @ ''...''],
             Exec ''echo travis_fold:start:zip_results && echo'',
             ExecOrDie (''zip -r  '' @ dirs)] \<and>
         take 3 (new_events w (downloadOutput' env fn '''' dirs w)) =
            [ConsoleLog
               [fileLogPrefix env fn @ '' Downloading build output from ''
                  @ cyan (colors env) ''gs://amp-travis-builds/'' @ ''...''],
             Exec ''echo travis_fold:start:download_results && echo'',
             ExecOrDie (''openssl aes-256-cbc -md sha256 -k '' @ template (GCP_TOKEN env)
                @ '' -in build-system/sa-travis-key.json.enc -out sa-travis-key.json -d'')] \<and>
         ((\<forall>h c. cmd_status env h c = 0) \<longrightarrow>
            commands_with ''gsutil '' (new_events w (uploadOutput' env fn '''' dirs w)) =
              [''gsutil -m cp -r  gs://amp-travis-builds''] \<and>
            commands_with ''gsutil '' (new_events w (downloadOutput' env fn '''' dirs w)) =
              [''gsutil cp gs://amp-travis-builds/ ''] \<and>
            commands_with ''unzip '' (new_events w (downloadOutput' env fn '''' dirs w)) =
              [''unzip -o ''])"
proof -
  have b: "BUILD_OUTPUT_FILE env = ''''" using assms(1) by (simp add: BUILD_OUTPUT_FILE_def)
  have d: "DIST_OUTPUT_FILE env = ''''" using assms(1) by (simp add: DIST_OUTPUT_FILE_def)
  have e1: "uploadBuildOutput env fn w = uploadOutput' env fn '''' BUILD_OUTPUT_DIRS w"
    by (simp add: uploadBuildOutput_def b)
  have e2: "uploadDistOutput env fn w = uploadOutput' env fn '''' DIST_OUTPUT_DIRS w"
    by (simp add: uploadDistOutput_def d)
  have e3: "downloadBuildOutput env fn w = downloadOutput' env fn '''' BUILD_OUTPUT_DIRS w"
    by (simp add: downloadBuildOutput_def b)
  have e4: "downloadDistOutput env fn w = downloadOutput' env fn '''' DIST_OUTPUT_DIRS w"
    by (simp add: downloadDistOutput_def d)
  have u3: "take 3 (new_events w (uploadOutput' env fn '''' dirs w)) =
            [ConsoleLog
               [CHR 0x0A # fileLogPrefix env fn @ '' Compressing ''
                  @ cyan (colors env) (join '', '' (split_on CHR '' '' dirs))
                  @ '' into '' @ cyan (colors env) '''' @ ''...''],
             Exec ''echo travis_fold:start:zip_results && echo'',
             ExecOrDie (''zip -r  '' @ dirs)]"
    by (rule upload_take3 [OF assms(2)])
  have d3: "take 3 (new_events w (downloadOutput' env fn '''' dirs w)) =
            [ConsoleLog
               [fileLogPrefix env fn @ '' Downloading build output from ''
                  @ cyan (colors env) ''gs://amp-travis-builds/'' @ ''...''],
             Exec ''echo travis_fold:start:download_results && echo'',
             ExecOrDie (''openssl aes-256-cbc -md sha256 -k '' @ template (GCP_TOKEN env)
                @ '' -in build-system/sa-travis-key.json.enc -out sa-travis-key.json -d'')]"
    by (rule download_take3 [OF assms(2)])
  have c: "(\<forall>h c. cmd_status env h c = 0) \<longrightarrow>
            commands_with ''gsutil '' (new_events w (uploadOutput' env fn '''' dirs w)) =
              [''gsutil -m cp -r  gs://amp-travis-builds''] \<and>
            commands_with ''gsutil '' (new_events w (downloadOutput' env fn '''' dirs w)) =
              [''gsutil cp gs://amp-travis-builds/ ''] \<and>
            commands_with ''unzip '' (new_events w (downloadOutput' env fn '''' dirs w)) =
              [''unzip -o '']"
    using upload_empty_commands [OF assms(2)] download_empty_commands [OF assms(2)]
    by blast
  from b d e1 e2 e3 e4 u3 d3 c show ?thesis by (intro conjI)
qed

theorem empty_archive_name_outside_travis_witness:
  "\<not> isTravisBuild (env_1234\<lparr>isTravisBuild := False\<rparr>) \<and> status world0 = Normal \<and>
   BUILD_OUTPUT_FILE (env_1234\<lparr>isTravisBuild := False\<rparr>) = '''' \<and>
   take 3 (new_events world0
             (uploadBuildOutput (env_1234\<lparr>isTravisBuild := False\<rparr>) ''build'' world0)) =
     [ConsoleLog [CHR 0x0A # ''build: Compressing build/, dist/, dist.3p/, EXTENSIONS_CSS_MAP into ...''],
      Exec ''echo travis_fold:start:zip_results && echo'',
      ExecOrDie ''zip -r  build/ dist/ dist.3p/ EXTENSIONS_CSS_MAP''] \<and>
   commands_with ''gsutil ''
     (new_events world0
        (downloadDistOutput (env_1234\<lparr>isTravisBuild := False\<rparr>) ''dist'' world0)) =
     [''gsutil cp gs://amp-travis-builds/ '']"
proof -
  let ?env = "env_1234\<lparr>isTravisBuild := False\<rparr>"
  have nt: "\<not> isTravisBuild ?env" by simp
  have st: "status world0 = Normal" by (simp add: world0_fields)
  have ok: "\<forall>h c. cmd_status ?env h c = 0" by (simp add: env_1234_fields)
  note t1 = empty_archive_name_outside_travis [OF nt st, where fn = "''build''"
              and dirs = BUILD_OUTPUT_DIRS]
  note t2 = empty_archive_name_outside_travis [OF nt st, where fn = "''dist''"
              and dirs = DIST_OUTPUT_DIRS]
  from t1 have b: "BUILD_OUTPUT_FILE ?env = ''''" by blast
  from t1 have u: "take 3 (new_events world0 (uploadBuildOutput ?env ''build'' world0)) =
     [ConsoleLog
               [CHR 0x0A # fileLogPrefix ?env ''build'' @ '' Compressing ''
                  @ cyan (colors ?env) (join '', '' (split_on CHR '' '' BUILD_OUTPUT_DIRS))
                  @ '' into '' @ cyan (colors ?env) '''' @ ''...''],
             Exec ''echo travis_fold:start:zip_results && echo'',
             ExecOrDie (''zip -r  '' @ BUILD_OUTPUT_DIRS)]"
    by simp
  from t2 ok have g: "commands_with ''gsutil ''
     (new_events world0 (downloadDistOutput ?env ''dist'' world0)) =
     [''gsutil cp gs://amp-travis-builds/ '']"
    by simp
  from u have u': "take 3 (new_events world0 (uploadBuildOutput ?env ''build'' world0)) =
     [ConsoleLog [CHR 0x0A # ''build: Compressing build/, dist/, dist.3p/, EXTENSIONS_CSS_MAP into ...''],
      Exec ''echo travis_fold:start:zip_results && echo'',
      ExecOrDie ''zip -r  build/ dist/ dist.3p/ EXTENSIONS_CSS_MAP'']"
    by (simp add: fileLogPrefix_def env_1234_fields plain_colors_def BUILD_OUTPUT_DIRS_def)
  from nt st b u' g show ?thesis by (intro conjI)
qed

section \<open>The branch check and the entry point\<close>

lemma emit_Normal: "status w = Normal \<Longrightarrow> emit e w = w\<lparr>trace := trace w @ [e]\<rparr>"
  by (simp add: emit_def)

lemma startTimer_snd:
  "status w = Normal \<Longrightarrow>
   snd (startTimer env fn file w) =
     w\<lparr>trace := trace w @
          [ConsoleLog [CHR 0x0A # fileLogPrefix env file, ''Running'',
             cyan (colors env) fn @ ''...'']]\<rparr>"
  by (simp add: startTimer_def console_log_def emit_Normal Let_def)

lemma stopTimer_Normal:
  "status w = Normal \<Longrightarrow>
   stopTimer env fn file t w =
     w\<lparr>trace := trace w @
          [ConsoleLog [fileLogPrefix env file, ''Done running'', cyan (colors env) fn,
             ''Total time:'',
             green (colors env)
               (number_text ((now env (trace w) - t) div 60000) @ ''m ''
                  @ number_text (js_rem (now env (trace w) - t) 60000 div 1000) @ ''s'')]]\<rparr>"
  by (simp add: stopTimer_def console_log_def emit_Normal Let_def)

lemma verifyBranchCreationPoint_missing:
  assumes "status w = Normal" "gitBranchCreationPoint env = ''''"
  shows "verifyBranchCreationPoint env fileName w =
     (False,
      w\<lparr>trace := trace w @
          [ConsoleError
             [fileLogPrefix env fileName,
              red (colors env) ''ERROR:'',
              ''Could not find a common ancestor for'',
              cyan (colors env) (gitBranchName env),
              ''and'',
              cyan (colors env) ''master'' @ ''. Was this PR branch properly forked?''],
           ConsoleError
             [fileLogPrefix env fileName,
              yellow (colors env) ''NOTE:'',
              ''To fix this, rebase your branch on'',
              cyan (colors env) ''master''
                @ '', or recreate it by following the instructions at'',
              cyan (colors env)
                ''https://github.com/ampproject/amphtml/blob/master/contributing/getting-started-e2e.md#create-a-git-branch''
                @ ''.'']]\<rparr>)"
  using assms
  by (simp add: verifyBranchCreationPoint_def console_error_def emit_Normal Let_def
      GIT_BRANCH_URL_def)


lemma main_yarn_fails:
  assumes "status w = Normal" "\<not> yarnChecksPass env"
  shows "main env w =
     set_exitCode 1
       (stopTimer env FILENAME FILENAME (fst (startTimer env FILENAME FILENAME w))
          (w\<lparr>trace := trace w @
              [ConsoleLog [CHR 0x0A # fileLogPrefix env FILENAME, ''Running'',
                 cyan (colors env) FILENAME @ ''...''],
               RunYarnChecks FILENAME]\<rparr>))"
proof -
  have s: "startTimer env FILENAME FILENAME w =
             (fst (startTimer env FILENAME FILENAME w), snd (startTimer env FILENAME FILENAME w))"
    by simp
  show ?thesis
    unfolding main_def
    apply (subst s)
    using assms
    by (simp add: startTimer_snd runYarnChecks_def emit_Normal Let_def)
qed

lemma main_branch_fails:
  assumes "status w = Normal" "yarnChecksPass env" "isTravisPullRequestBuild env"
    "gitBranchCreationPoint env = ''''"
  shows "main env w =
     set_exitCode 1
       (stopTimer env FILENAME FILENAME (fst (startTimer env FILENAME FILENAME w))
          (w\<lparr>trace := trace w @
              [ConsoleLog [CHR 0x0A # fileLogPrefix env FILENAME, ''Running'',
                 cyan (colors env) FILENAME @ ''...''],
               RunYarnChecks FILENAME,
               ConsoleError
                 [fileLogPrefix env FILENAME,
                  red (colors env) ''ERROR:'',
                  ''Could not find a common ancestor for'',
                  cyan (colors env) (gitBranchName env),
                  ''and'',
                  cyan (colors env) ''master'' @ ''. Was this PR branch properly forked?''],
               ConsoleError
                 [fileLogPrefix env FILENAME,
                  yellow (colors env) ''NOTE:'',
                  ''To fix this, rebase your branch on'',
                  cyan (colors env) ''master''
                    @ '', or recreate it by following the instructions at'',
                  cyan (colors env)
                    ''https://github.com/ampproject/amphtml/blob/master/contributing/getting-started-e2e.md#create-a-git-branch''
                    @ ''.'']]\<rparr>))"
proof -
  have s: "startTimer env FILENAME FILENAME w =
             (fst (startTimer env FILENAME FILENAME w), snd (startTimer env FILENAME FILENAME w))"
    by simp
  show ?thesis
    unfolding main_def
    apply (subst s)
    using assms
    by (simp add: startTimer_snd runYarnChecks_def emit_Normal Let_def
        verifyBranchCreationPoint_missing)
qed

lemma main_early_trace:
  assumes "status w = Normal"
    and m: "main env w =
              set_exitCode 1
                (stopTimer env FILENAME FILENAME (fst (startTimer env FILENAME FILENAME w))
                   (w\<lparr>trace := trace w @ pre\<rparr>))"
    and p: "filter is_stopTimer_log pre = []" "filter is_command pre = []"
  shows "exitCode (main env w) = Some 1 \<and> status (main env w) = Normal \<and>
         length (filter is_stopTimer_log (new_events w (main env w))) = 1 \<and>
         filter is_command (new_events w (main env w)) = [] \<and>
         butlast (new_events w (main env w)) = pre \<and>
         [last (new_events w (main env w))] =
           new_events (w\<lparr>trace := trace w @ pre\<rparr>)
             (stopTimer env FILENAME FILENAME (fst (startTimer env FILENAME FILENAME w))
                (w\<lparr>trace := trace w @ pre\<rparr>))"
proof -
  let ?w2 = "w\<lparr>trace := trace w @ pre\<rparr>"
  have st2: "status ?w2 = Normal" using assms(1) by simp
  show ?thesis
    unfolding m stopTimer_Normal [OF st2]
    using assms(1) p by (simp add: set_exitCode_def new_events_def)
qed



text \<open>
  C10: on both early-failure paths of the entry point's \<^verbatim>\<open>main\<close> (the yarn checks
  fail; or they pass and, on a pull-request build, no branch creation point is found)
  \<^verbatim>\<open>stopTimer\<close> is called exactly once, as the last action and with the start time of
  the \<^verbatim>\<open>startTimer\<close> at entry, \<^verbatim>\<open>process.exitCode\<close> is set to 1, and \<^verbatim>\<open>main\<close>
  returns without having run any command.
\<close>

theorem main_early_failure:
  assumes "status w = Normal"
    and "\<not> yarnChecksPass env \<or>
         (isTravisPullRequestBuild env \<and> gitBranchCreationPoint env = '''')"
  shows "exitCode (main env w) = Some 1 \<and> status (main env w) = Normal \<and>
         length (filter is_stopTimer_log (new_events w (main env w))) = 1 \<and>
         filter is_command (new_events w (main env w)) = [] \<and>
         [last (new_events w (main env w))] =
           new_events (w\<lparr>trace := trace w @ butlast (new_events w (main env w))\<rparr>)
             (stopTimer env FILENAME FILENAME (fst (startTimer env FILENAME FILENAME w))
                (w\<lparr>trace := trace w @ butlast (new_events w (main env w))\<rparr>)) \<and>
         (\<not> yarnChecksPass env \<longrightarrow>
            butlast (new_events w (main env w)) =
             [ConsoleLog [CHR 0x0A # fileLogPrefix env ''checks.js'', ''Running'',
                cyan (colors env) ''checks.js'' @ ''...''],
              RunYarnChecks ''checks.js'']) \<and>
         (yarnChecksPass env \<longrightarrow>
            butlast (new_events w (main env w)) =
             [ConsoleLog [CHR 0x0A # fileLogPrefix env ''checks.js'', ''Running'',
                cyan (colors env) ''checks.js'' @ ''...''],
              RunYarnChecks ''checks.js'',
              ConsoleError
                [fileLogPrefix env ''checks.js'',
                 red (colors env) ''ERROR:'',
                 ''Could not find a common ancestor for'',
                 cyan (colors env) (gitBranchName env),
                 ''and'',
                 cyan (colors env) ''master'' @ ''. Was this PR branch properly forked?''],
              ConsoleError
                [fileLogPrefix env ''checks.js'',
                 yellow (colors env) ''NOTE:'',
                 ''To fix this, rebase your branch on'',
                 cyan (colors env) ''master''
                   @ '', or recreate it by following the instructions at'',
                 cyan (colors env)
                   ''https://github.com/ampproject/amphtml/blob/master/contributing/getting-started-e2e.md#create-a-git-branch''
                   @ ''.'']])"
proof (cases "yarnChecksPass env")
  case False
  note m = main_early_trace [OF assms(1) main_yarn_fails [OF assms(1) False]]
  have "filter is_stopTimer_log
          ([ConsoleLog [CHR 0x0A # fileLogPrefix env FILENAME, ''Running'',
                 cyan (colors env) FILENAME @ ''...''],
               RunYarnChecks FILENAME]) = []"
       "filter is_command
          ([ConsoleLog [CHR 0x0A # fileLogPrefix env FILENAME, ''Running'',
                 cyan (colors env) FILENAME @ ''...''],
               RunYarnChecks FILENAME]) = []"
    by simp_all
  from m [OF this] False show ?thesis
    by (simp add: FILENAME_def)
next
  case True
  with assms(2) have pr: "isTravisPullRequestBuild env"
    and g: "gitBranchCreationPoint env = ''''" by blast+
  note m = main_early_trace [OF assms(1) main_branch_fails [OF assms(1) True pr g]]
  have "filter is_stopTimer_log
          ([ConsoleLog [CHR 0x0A # fileLogPrefix env FILENAME, ''Running'',
                cyan (colors env) FILENAME @ ''...''],
              RunYarnChecks FILENAME,
              ConsoleError
                [fileLogPrefix env FILENAME,
                 red (colors env) ''ERROR:'',
                 ''Could not find a common ancestor for'',
                 cyan (colors env) (gitBranchName env),
                 ''and'',
                 cyan (colors env) ''master'' @ ''. Was this PR branch properly forked?''],
              ConsoleError
                [fileLogPrefix env FILENAME,
                 yellow (colors env) ''NOTE:'',
                 ''To fix this, rebase your branch on'',
                 cyan (colors env) ''master''
                   @ '', or recreate it by following the instructions at'',
                 cyan (colors env)
                   ''https://github.com/ampproject/amphtml/blob/master/contributing/getting-started-e2e.md#create-a-git-branch''
                   @ ''.'']]) = []"
       "filter is_command
          ([ConsoleLog [CHR 0x0A # fileLogPrefix env FILENAME, ''Running'',
                cyan (colors env) FILENAME @ ''...''],
              RunYarnChecks FILENAME,
              ConsoleError
                [fileLogPrefix env FILENAME,
                 red (colors env) ''ERROR:'',
                 ''Could not find a common ancestor for'',
                 cyan (colors env) (gitBranchName env),
                 ''and'',
                 cyan (colors env) ''master'' @ ''. Was this PR branch properly forked?''],
              ConsoleError
                [fileLogPrefix env FILENAME,
                 yellow (colors env) ''NOTE:'',
                 ''To fix this, rebase your branch on'',
                 cyan (colors env) ''master''
                   @ '', or recreate it by following the instructions at'',
                 cyan (colors env)
                   ''https://github.com/ampproject/amphtml/blob/master/contributing/getting-started-e2e.md#create-a-git-branch''
                   @ ''.'']]) = []"
    by simp_all
  from m [OF this] True show ?thesis
    by (simp add: FILENAME_def)
qed

theorem main_early_failure_witness:
  "status world0 = Normal \<and>
   \<not> yarnChecksPass (env_1234\<lparr>yarnChecksPass := False\<rparr>) \<and>
   exitCode (main (env_1234\<lparr>yarnChecksPass := False\<rparr>) world0) = Some 1 \<and>
   status (main (env_1234\<lparr>yarnChecksPass := False\<rparr>) world0) = Normal \<and>
   length (filter is_stopTimer_log
             (new_events world0 (main (env_1234\<lparr>yarnChecksPass := False\<rparr>) world0))) = 1 \<and>
   filter is_command
     (new_events world0 (main (env_1234\<lparr>yarnChecksPass := False\<rparr>) world0)) = [] \<and>
   butlast (new_events world0 (main (env_1234\<lparr>yarnChecksPass := False\<rparr>) world0)) =
     [ConsoleLog [CHR 0x0A # ''checks.js:'', ''Running'', ''checks.js...''],
      RunYarnChecks ''checks.js''] \<and>
   exitCode (main (env_1234\<lparr>gitBranchCreationPoint := ''''\<rparr>) world0) = Some 1 \<and>
   filter is_command
     (new_events world0 (main (env_1234\<lparr>gitBranchCreationPoint := ''''\<rparr>) world0)) = []"
proof -
  let ?e1 = "env_1234\<lparr>yarnChecksPass := False\<rparr>"
  let ?e2 = "env_1234\<lparr>gitBranchCreationPoint := ''''\<rparr>"
  have st: "status world0 = Normal" by (simp add: world0_fields)
  have y: "\<not> yarnChecksPass ?e1" by simp
  have h1: "\<not> yarnChecksPass ?e1 \<or>
            (isTravisPullRequestBuild ?e1 \<and> gitBranchCreationPoint ?e1 = '''')"
    by simp
  have h2: "\<not> yarnChecksPass ?e2 \<or>
            (isTravisPullRequestBuild ?e2 \<and> gitBranchCreationPoint ?e2 = '''')"
    by (simp add: env_1234_fields)
  note t = main_early_failure [OF st h1]
  note u = main_early_failure [OF st h2]
  from t have a: "exitCode (main ?e1 world0) = Some 1"
    and b: "status (main ?e1 world0) = Normal"
    and c: "length (filter is_stopTimer_log (new_events world0 (main ?e1 world0))) = 1"
    and d: "filter is_command (new_events world0 (main ?e1 world0)) = []"
    by blast+
  from t y have "butlast (new_events world0 (main ?e1 world0)) =
     [ConsoleLog [CHR 0x0A # fileLogPrefix ?e1 ''checks.js'', ''Running'',
                cyan (colors ?e1) ''checks.js'' @ ''...''],
              RunYarnChecks ''checks.js'']"
    by blast
  then have e: "butlast (new_events world0 (main ?e1 world0)) =
     [ConsoleLog [CHR 0x0A # ''checks.js:'', ''Running'', ''checks.js...''],
      RunYarnChecks ''checks.js'']"
    by (simp add: fileLogPrefix_def env_1234_fields plain_colors_def)
  from u have f: "exitCode (main ?e2 world0) = Some 1"
    and g: "filter is_command (new_events world0 (main ?e2 world0)) = []"
    by blast+
  from st y a b c d e f g show ?thesis by (intro conjI)
qed

end
